theory Spec2Isabelle
  imports Main "HOL-Library.AList"
begin

section \<open>Python values, as the bridge handles them\<close>

text \<open>
  The bridge of \<^verbatim>\<open>gimp-mcp-plugin.py\<close> and of the older \<^verbatim>\<open>gimp-mcp-server.py\<close> moves
  three kinds of values: what \<^verbatim>\<open>json.loads\<close> builds from a request (None, booleans, integers,
  floats, strings, lists, dictionaries), objects of the GIMP host (referred to by a
  reference), and the dictionaries the bridge builds for its responses.

  A Python \<^verbatim>\<open>str\<close> is represented by its UTF-8 encoding, and \<^verbatim>\<open>bytes\<close> by the bytes themselves,
  both as \<^typ>\<open>string\<close>. A float is its mantissa and binary exponent. Dictionary keys are
  values, as in Python (\<^verbatim>\<open>args[0] = image\<close> on a dictionary adds the key \<^verbatim>\<open>0\<close>).
\<close>

type_synonym ref = nat

datatype pyval =
    PNone
  | PBool bool
  | PInt int
  | PFloat int int
  | PStr string
  | PList "pyval list"
  | PDict "(pyval \<times> pyval) list"
  | PObj ref

text \<open>
  The exceptions (all subclasses of \<^verbatim>\<open>Exception\<close>) that the modelled code can meet.
  \<open>AttributeError\<close> carries the phrase that names the receiver (\<^verbatim>\<open>'Image' object\<close> for an
  instance, \<^verbatim>\<open>type object 'Image'\<close> for a class) and the missing attribute's name; the others
  carry their message. \<open>PlainException\<close> is \<^verbatim>\<open>Exception(message)\<close> itself,
  \<open>SocketTimeout\<close> is \<^verbatim>\<open>socket.timeout\<close>, and \<open>HostError\<close> is whatever else a host call raises.
\<close>

datatype pyexn =
    AttributeError string string
  | KeyError string
  | IndexError string
  | TypeError string
  | ValueError string
  | UnicodeDecodeError string
  | JSONDecodeError string
  | OSError string
  | SocketTimeout
  | ConnectionError string
  | PlainException string
  | HostError string

definition quoted :: "string \<Rightarrow> string" where
  "quoted s = CHR 0x27 # s @ [CHR 0x27]"

text \<open>\<^verbatim>\<open>str(e)\<close>.\<close>

fun exn_str :: "pyexn \<Rightarrow> string" where
  "exn_str (AttributeError owner name) = owner @ '' has no attribute '' @ quoted name"
| "exn_str (KeyError k) = quoted k"
| "exn_str (IndexError m) = m"
| "exn_str (TypeError m) = m"
| "exn_str (ValueError m) = m"
| "exn_str (UnicodeDecodeError m) = m"
| "exn_str (JSONDecodeError m) = m"
| "exn_str (OSError m) = m"
| "exn_str SocketTimeout = ''timed out''"
| "exn_str (ConnectionError m) = m"
| "exn_str (PlainException m) = m"
| "exn_str (HostError m) = m"

text \<open>Sequencing of steps that may raise: the first exception ends the sequence.\<close>

definition try_bind :: "pyexn + 'a \<Rightarrow> ('a \<Rightarrow> pyexn + 'b) \<Rightarrow> pyexn + 'b" where
  "try_bind m f = (case m of Inl e \<Rightarrow> Inl e | Inr x \<Rightarrow> f x)"

fun try_map :: "('a \<Rightarrow> pyexn + 'b) \<Rightarrow> 'a list \<Rightarrow> pyexn + 'b list" where
  "try_map f [] = Inr []"
| "try_map f (x # xs) =
     (case f x of
        Inl e \<Rightarrow> Inl e
      | Inr y \<Rightarrow> (case try_map f xs of Inl e \<Rightarrow> Inl e | Inr ys \<Rightarrow> Inr (y # ys)))"

subsection \<open>The host: GIMP's object graph and the Python runtime around it\<close>

text \<open>
  The host application is an external collaborator. Its state \<open>'s\<close> changes only when a
  callable is invoked; every other capability reads it. The last two fields are texts of
  the runtime's error messages: how an AttributeError names a host object, and how a call
  error names a callee (\<^verbatim>\<open>module.name()\<close> for a function).
\<close>

record 's gimp_host =
  gimp :: ref
  obj_attr :: "'s \<Rightarrow> ref \<Rightarrow> string \<Rightarrow> pyval option"
  builtin_attr :: "pyval \<Rightarrow> string \<Rightarrow> pyval option"
  obj_callable :: "'s \<Rightarrow> ref \<Rightarrow> bool"
  obj_signature :: "'s \<Rightarrow> ref \<Rightarrow> pyexn + string list"
  obj_call :: "'s \<Rightarrow> ref \<Rightarrow> pyval list \<Rightarrow> (string \<times> pyval) list \<Rightarrow> (pyexn + pyval) \<times> 's"
  obj_class :: "'s \<Rightarrow> ref \<Rightarrow> string"
  obj_truthy :: "'s \<Rightarrow> ref \<Rightarrow> bool"
  py_repr :: "'s \<Rightarrow> pyval \<Rightarrow> string"
  image_get_by_id :: "'s \<Rightarrow> pyval \<Rightarrow> pyexn + pyval"
  image_get_id :: "'s \<Rightarrow> pyval \<Rightarrow> pyexn + pyval"
  format_exc :: "pyexn \<Rightarrow> string"
  obj_owner_text :: "'s \<Rightarrow> ref \<Rightarrow> string"
  obj_func_text :: "'s \<Rightarrow> ref \<Rightarrow> string"

text \<open>\<^verbatim>\<open>obj.__class__.__name__\<close>.\<close>

fun py_class_name :: "'s gimp_host \<Rightarrow> 's \<Rightarrow> pyval \<Rightarrow> string" where
  "py_class_name h s PNone = ''NoneType''"
| "py_class_name h s (PBool b) = ''bool''"
| "py_class_name h s (PInt i) = ''int''"
| "py_class_name h s (PFloat m e) = ''float''"
| "py_class_name h s (PStr t) = ''str''"
| "py_class_name h s (PList xs) = ''list''"
| "py_class_name h s (PDict kvs) = ''dict''"
| "py_class_name h s (PObj r) = obj_class h s r"

text \<open>How an AttributeError names the receiver.\<close>

fun py_owner_text :: "'s gimp_host \<Rightarrow> 's \<Rightarrow> pyval \<Rightarrow> string" where
  "py_owner_text h s (PObj r) = obj_owner_text h s r"
| "py_owner_text h s v = quoted (py_class_name h s v) @ '' object''"

text \<open>
  \<^verbatim>\<open>getattr(v, name)\<close>, \<open>None\<close> standing for AttributeError. Host objects answer from the
  host's table. None, booleans, numbers, strings, lists and dictionaries have no attribute
  called \<^verbatim>\<open>id\<close> or \<^verbatim>\<open>ID\<close> in Python; their other attributes (methods such as \<^verbatim>\<open>upper\<close>) are
  the runtime's.
\<close>

fun py_getattr :: "'s gimp_host \<Rightarrow> 's \<Rightarrow> pyval \<Rightarrow> string \<Rightarrow> pyval option" where
  "py_getattr h s (PObj r) name = obj_attr h s r name"
| "py_getattr h s v name =
     (if name = ''id'' \<or> name = ''ID'' then None else builtin_attr h v name)"

definition getattr_or_raise :: "'s gimp_host \<Rightarrow> 's \<Rightarrow> pyval \<Rightarrow> string \<Rightarrow> pyexn + pyval" where
  "getattr_or_raise h s v name =
     (case py_getattr h s v name of
        None \<Rightarrow> Inl (AttributeError (py_owner_text h s v) name)
      | Some x \<Rightarrow> Inr x)"

text \<open>
  Truth value of a value, as \<^verbatim>\<open>if v:\<close> tests it; \<open>objt\<close> is the truth value of host objects.
\<close>

fun py_truthy :: "(ref \<Rightarrow> bool) \<Rightarrow> pyval \<Rightarrow> bool" where
  "py_truthy objt PNone = False"
| "py_truthy objt (PBool b) = b"
| "py_truthy objt (PInt i) = (i \<noteq> 0)"
| "py_truthy objt (PFloat m e) = (m \<noteq> 0)"
| "py_truthy objt (PStr t) = (t \<noteq> [])"
| "py_truthy objt (PList xs) = (xs \<noteq> [])"
| "py_truthy objt (PDict kvs) = (kvs \<noteq> [])"
| "py_truthy objt (PObj r) = objt r"

text \<open>Decimal digits of a natural number, and \<^verbatim>\<open>str\<close> of an integer.\<close>

fun digits10 :: "nat \<Rightarrow> string" where
  "digits10 n =
     (if n < 10 then [char_of (48 + n)]
      else digits10 (n div 10) @ [char_of (48 + n mod 10)])"

declare digits10.simps [simp del]

definition int_str :: "int \<Rightarrow> string" where
  "int_str i = (if i < 0 then CHR ''-'' # digits10 (nat (- i)) else digits10 (nat i))"

text \<open>
  \<^verbatim>\<open>str(v)\<close>. The text of a float, a list, a dictionary or a host object is the runtime's
  \<^verbatim>\<open>repr\<close>.
\<close>

fun py_str :: "'s gimp_host \<Rightarrow> 's \<Rightarrow> pyval \<Rightarrow> string" where
  "py_str h s PNone = ''None''"
| "py_str h s (PBool b) = (if b then ''True'' else ''False'')"
| "py_str h s (PInt i) = int_str i"
| "py_str h s (PStr t) = t"
| "py_str h s v = py_repr h s v"

section \<open>The result serializer\<close>

text \<open>
  \<^verbatim>\<open>MCPPlugin.serialize_gimp_object\<close> of \<^verbatim>\<open>gimp-mcp-plugin.py\<close>, applied to the elements of
  a list result.
\<close>

definition plugin_serialize_gimp_object :: "'s gimp_host \<Rightarrow> 's \<Rightarrow> pyval \<Rightarrow> pyexn + pyval" where
  "plugin_serialize_gimp_object h s obj =
     (if py_class_name h s obj = ''Image'' then
        try_bind (image_get_id h s obj) (\<lambda>i.
          Inr (PDict [(PStr ''id'', i), (PStr ''type'', PStr (py_class_name h s obj))]))
      else Inr (PStr (py_str h s obj)))"

text \<open>
  The block under \<^verbatim>\<open># Serialize result\<close> in \<^verbatim>\<open>execute_command\<close> of \<^verbatim>\<open>gimp-mcp-plugin.py\<close>:
  \<^verbatim>\<open>hasattr(result, "id")\<close>, else \<^verbatim>\<open>isinstance(result, list)\<close>, else \<^verbatim>\<open>str(result)\<close>.
\<close>

definition plugin_serialize_result :: "'s gimp_host \<Rightarrow> 's \<Rightarrow> pyval \<Rightarrow> pyexn + pyval" where
  "plugin_serialize_result h s result =
     (case py_getattr h s result ''id'' of
        Some i \<Rightarrow> Inr (PDict [(PStr ''id'', i)])
      | None \<Rightarrow>
          (case result of
             PList items \<Rightarrow>
               try_bind (try_map (plugin_serialize_gimp_object h s) items) (\<lambda>ys. Inr (PList ys))
           | _ \<Rightarrow> Inr (PStr (py_str h s result))))"

text \<open>The same two functions in \<^verbatim>\<open>gimp-mcp-server.py\<close>, which test the attribute \<^verbatim>\<open>ID\<close>.\<close>

definition server_serialize_gimp_object :: "'s gimp_host \<Rightarrow> 's \<Rightarrow> pyval \<Rightarrow> pyval" where
  "server_serialize_gimp_object h s obj =
     (case py_getattr h s obj ''ID'' of
        Some i \<Rightarrow> PDict [(PStr ''id'', i), (PStr ''type'', PStr (py_class_name h s obj))]
      | None \<Rightarrow> PStr (py_str h s obj))"

definition server_serialize_result :: "'s gimp_host \<Rightarrow> 's \<Rightarrow> pyval \<Rightarrow> pyval" where
  "server_serialize_result h s result =
     (case py_getattr h s result ''ID'' of
        Some i \<Rightarrow> PDict [(PStr ''id'', i)]
      | None \<Rightarrow>
          (case result of
             PList items \<Rightarrow> PList (map (server_serialize_gimp_object h s) items)
           | _ \<Rightarrow> PStr (py_str h s result)))"

section \<open>Dictionary, list and call primitives of the runtime\<close>

text \<open>\<^verbatim>\<open>d.get(k, default)\<close>. Only a dictionary has the method; a decoded request holds no host object.\<close>

fun py_get :: "'s gimp_host \<Rightarrow> 's \<Rightarrow> pyval \<Rightarrow> string \<Rightarrow> pyval \<Rightarrow> pyexn + pyval" where
  "py_get h s (PDict kvs) k d = Inr (case map_of kvs (PStr k) of Some v \<Rightarrow> v | None \<Rightarrow> d)"
| "py_get h s v k d = Inl (AttributeError (py_owner_text h s v) ''get'')"

text \<open>\<^verbatim>\<open>d[k]\<close> with a string key.\<close>

fun py_getitem :: "'s gimp_host \<Rightarrow> 's \<Rightarrow> pyval \<Rightarrow> string \<Rightarrow> pyexn + pyval" where
  "py_getitem h s (PDict kvs) k =
     (case map_of kvs (PStr k) of Some v \<Rightarrow> Inr v | None \<Rightarrow> Inl (KeyError k))"
| "py_getitem h s (PList xs) k = Inl (TypeError ''list indices must be integers or slices, not str'')"
| "py_getitem h s (PStr t) k =
     Inl (TypeError (''string indices must be integers, not '' @ quoted ''str''))"
| "py_getitem h s v k = Inl (TypeError (quoted (py_class_name h s v) @ '' object is not subscriptable''))"

text \<open>\<^verbatim>\<open>del d[k]\<close> with a string key.\<close>

fun py_delitem :: "'s gimp_host \<Rightarrow> 's \<Rightarrow> pyval \<Rightarrow> string \<Rightarrow> pyexn + pyval" where
  "py_delitem h s (PDict kvs) k =
     (case map_of kvs (PStr k) of
        Some v \<Rightarrow> Inr (PDict (AList.delete (PStr k) kvs))
      | None \<Rightarrow> Inl (KeyError k))"
| "py_delitem h s (PList xs) k = Inl (TypeError ''list indices must be integers or slices, not str'')"
| "py_delitem h s v k =
     Inl (TypeError (quoted (py_class_name h s v) @ '' object does not support item deletion''))"

text \<open>\<^verbatim>\<open>args[0] = image\<close>: a list must have a first slot; a dictionary gains the key \<^verbatim>\<open>0\<close>.\<close>

fun py_setitem0 :: "'s gimp_host \<Rightarrow> 's \<Rightarrow> pyval \<Rightarrow> pyval \<Rightarrow> pyexn + pyval" where
  "py_setitem0 h s (PList []) x = Inl (IndexError ''list assignment index out of range'')"
| "py_setitem0 h s (PList (y # ys)) x = Inr (PList (x # ys))"
| "py_setitem0 h s (PDict kvs) x = Inr (PDict (AList.update (PInt 0) x kvs))"
| "py_setitem0 h s v x =
     Inl (TypeError (quoted (py_class_name h s v) @ '' object does not support item assignment''))"

text \<open>\<^verbatim>\<open>s.split(c)\<close>: one more piece than there are separators, empty pieces kept.\<close>

fun split_on :: "char \<Rightarrow> string \<Rightarrow> string list" where
  "split_on c [] = [[]]"
| "split_on c (x # xs) =
     (if x = c then [] # split_on c xs
      else (case split_on c xs of [] \<Rightarrow> [[x]] | p # ps \<Rightarrow> (x # p) # ps))"

fun py_split_dot :: "'s gimp_host \<Rightarrow> 's \<Rightarrow> pyval \<Rightarrow> pyexn + string list" where
  "py_split_dot h s (PStr t) = Inr (split_on CHR ''.'' t)"
| "py_split_dot h s v = Inl (AttributeError (py_owner_text h s v) ''split'')"

text \<open>The characters of a text in UTF-8: a continuation byte belongs to the byte before it.\<close>

definition utf8_cont :: "char \<Rightarrow> bool" where
  "utf8_cont c = (128 \<le> (of_char c :: nat) \<and> (of_char c :: nat) \<le> 191)"

fun utf8_chars :: "string \<Rightarrow> string list" where
  "utf8_chars [] = []"
| "utf8_chars (c # cs) =
     (case utf8_chars cs of
        [] \<Rightarrow> [[c]]
      | [] # gs \<Rightarrow> [c] # gs
      | (b # g) # gs \<Rightarrow> if utf8_cont b then (c # b # g) # gs else [c] # (b # g) # gs)"

text \<open>
  \<^verbatim>\<open>*args\<close>: the positional arguments a value unpacks to. The message of the TypeError is
  the interpreter's without the callee, which \<open>py_invoke\<close> puts in front.
\<close>

fun py_star :: "'s gimp_host \<Rightarrow> 's \<Rightarrow> pyval \<Rightarrow> pyexn + pyval list" where
  "py_star h s (PList xs) = Inr xs"
| "py_star h s (PStr t) = Inr (map PStr (utf8_chars t))"
| "py_star h s (PDict kvs) = Inr (map fst kvs)"
| "py_star h s v =
     Inl (TypeError (''argument after * must be an iterable, not '' @ py_class_name h s v))"

text \<open>
  \<^verbatim>\<open>**kwargs\<close>: the value must be a mapping, and a callee receives its entries by name, so
  every key must be a string. The message that the value is no mapping is again without the
  callee.
\<close>

fun py_mapping :: "'s gimp_host \<Rightarrow> 's \<Rightarrow> pyval \<Rightarrow> pyexn + (pyval \<times> pyval) list" where
  "py_mapping h s (PDict kvs) = Inr kvs"
| "py_mapping h s v =
     Inl (TypeError (''argument after ** must be a mapping, not '' @ py_class_name h s v))"

fun keyword_item :: "pyval \<times> pyval \<Rightarrow> pyexn + (string \<times> pyval)" where
  "keyword_item (PStr k, v) = Inr (k, v)"
| "keyword_item (k, v) = Inl (TypeError ''keywords must be strings'')"

fun py_callable :: "'s gimp_host \<Rightarrow> 's \<Rightarrow> pyval \<Rightarrow> bool" where
  "py_callable h s (PObj r) = obj_callable h s r"
| "py_callable h s v = False"

text \<open>\<^verbatim>\<open>inspect.signature(f).parameters\<close>: the declared parameter names.\<close>

fun py_signature :: "'s gimp_host \<Rightarrow> 's \<Rightarrow> pyval \<Rightarrow> pyexn + string list" where
  "py_signature h s (PObj r) = obj_signature h s r"
| "py_signature h s v = Inl (TypeError (py_repr h s v @ '' is not a callable object''))"

text \<open>How a call error names the callee: a host object by the host's text, another value by \<^verbatim>\<open>str\<close>.\<close>

fun py_func_text :: "'s gimp_host \<Rightarrow> 's \<Rightarrow> pyval \<Rightarrow> string" where
  "py_func_text h s (PObj r) = obj_func_text h s r"
| "py_func_text h s v = py_str h s v"

fun with_callee :: "string \<Rightarrow> pyexn \<Rightarrow> pyexn" where
  "with_callee callee (TypeError m) = TypeError (callee @ '' '' @ m)"
| "with_callee callee e = e"

text \<open>
  \<^verbatim>\<open>f(*args, **kwargs)\<close>: the interpreter checks the mapping, then unpacks the positional
  arguments, then calls; the callee's argument parsing rejects a key that is not a string.
\<close>

definition py_invoke ::
  "'s gimp_host \<Rightarrow> 's \<Rightarrow> pyval \<Rightarrow> pyval \<Rightarrow> pyval \<Rightarrow> (pyexn + pyval) \<times> 's" where
  "py_invoke h s f args kwargs =
     (case py_mapping h s kwargs of
        Inl e \<Rightarrow> (Inl (with_callee (py_func_text h s f) e), s)
      | Inr kvs \<Rightarrow>
          (case py_star h s args of
             Inl e \<Rightarrow> (Inl (with_callee (py_func_text h s f) e), s)
           | Inr pos \<Rightarrow>
               (case f of
                  PObj r \<Rightarrow>
                    if obj_callable h s r then
                      (case try_map keyword_item kvs of
                         Inl e \<Rightarrow> (Inl e, s)
                       | Inr kws \<Rightarrow> obj_call h s r pos kws)
                    else (Inl (TypeError (quoted (obj_class h s r) @ '' object is not callable'')), s)
                | _ \<Rightarrow>
                    (Inl (TypeError (quoted (py_class_name h s f) @ '' object is not callable'')), s))))"

text \<open>The loop \<^verbatim>\<open>for part in parts: current = getattr(current, part)\<close>.\<close>

fun attr_walk :: "'s gimp_host \<Rightarrow> 's \<Rightarrow> pyval \<Rightarrow> string list \<Rightarrow> pyexn + pyval" where
  "attr_walk h s current [] = Inr current"
| "attr_walk h s current (part # parts) =
     (case getattr_or_raise h s current part of
        Inl e \<Rightarrow> Inl e
      | Inr v \<Rightarrow> attr_walk h s v parts)"

section \<open>\<^verbatim>\<open>MCPPlugin.execute_command\<close> of \<^verbatim>\<open>gimp-mcp-plugin.py\<close>\<close>

text \<open>Reading \<^verbatim>\<open>api_path\<close>, \<^verbatim>\<open>args\<close> and \<^verbatim>\<open>kwargs\<close>, from \<^verbatim>\<open>params\<close> or, when that is empty, from the request itself.\<close>

definition plugin_get_params ::
  "'s gimp_host \<Rightarrow> 's \<Rightarrow> pyval \<Rightarrow> pyexn + (pyval \<times> pyval \<times> pyval)" where
  "plugin_get_params h s request =
     try_bind (py_get h s request ''params'' (PDict [])) (\<lambda>params.
     try_bind (py_get h s params ''api_path'' (PStr [])) (\<lambda>api_path.
     try_bind (py_get h s params ''args'' (PList [])) (\<lambda>args.
     try_bind (py_get h s params ''kwargs'' (PDict [])) (\<lambda>kwargs.
       if \<not> py_truthy (obj_truthy h s) params then
         try_bind (py_get h s request ''api_path'' (PStr [])) (\<lambda>api_path.
         try_bind (py_get h s request ''args'' (PList [])) (\<lambda>args.
         try_bind (py_get h s request ''kwargs'' (PDict [])) (\<lambda>kwargs.
           Inr (api_path, args, kwargs))))
       else Inr (api_path, args, kwargs)))))"

text \<open>
  The block under \<^verbatim>\<open># Get Gimp.Image if kwargs specifies it\<close>: the image (None when the
  test does not fire) and the keyword dictionary afterwards.
\<close>

definition plugin_get_image :: "'s gimp_host \<Rightarrow> 's \<Rightarrow> pyval \<Rightarrow> pyexn + (pyval \<times> pyval)" where
  "plugin_get_image h s kwargs =
     try_bind (py_get h s kwargs ''image_id'' PNone) (\<lambda>i.
       if py_truthy (obj_truthy h s) i then
         try_bind (image_get_by_id h s i) (\<lambda>img.
         try_bind (py_delitem h s kwargs ''image_id'') (\<lambda>kwargs'.
           Inr (img, kwargs')))
       else Inr (PNone, kwargs))"

text \<open>The block under \<^verbatim>\<open># Dynamically resolve the API method\<close>: the first segment is skipped.\<close>

definition plugin_resolve :: "'s gimp_host \<Rightarrow> 's \<Rightarrow> pyval \<Rightarrow> pyexn + pyval" where
  "plugin_resolve h s api_path =
     try_bind (py_split_dot h s api_path) (\<lambda>parts.
       attr_walk h s (PObj (gimp h)) (drop 1 parts))"

text \<open>The block under \<^verbatim>\<open># Call the method\<close>.\<close>

definition plugin_call_method ::
  "'s gimp_host \<Rightarrow> 's \<Rightarrow> pyval \<Rightarrow> pyval \<Rightarrow> pyval \<Rightarrow> pyval \<Rightarrow> (pyexn + pyval) \<times> 's" where
  "plugin_call_method h s current img args kwargs =
     (if py_callable h s current then
        (case py_signature h s current of
           Inl e \<Rightarrow> (Inl e, s)
         | Inr names \<Rightarrow>
             (case (if ''image'' \<in> set names then py_setitem0 h s args img else Inr args) of
                Inl e \<Rightarrow> (Inl e, s)
              | Inr args' \<Rightarrow> py_invoke h s current args' kwargs))
      else (Inr current, s))"

text \<open>The body of the \<^verbatim>\<open>try\<close>: the serialized result, or the exception raised.\<close>

definition plugin_try_body :: "'s gimp_host \<Rightarrow> 's \<Rightarrow> pyval \<Rightarrow> (pyexn + pyval) \<times> 's" where
  "plugin_try_body h s request =
     (case plugin_get_params h s request of
        Inl e \<Rightarrow> (Inl e, s)
      | Inr (api_path, args, kwargs) \<Rightarrow>
          (case plugin_get_image h s kwargs of
             Inl e \<Rightarrow> (Inl e, s)
           | Inr (img, kwargs') \<Rightarrow>
               (case plugin_resolve h s api_path of
                  Inl e \<Rightarrow> (Inl e, s)
                | Inr current \<Rightarrow>
                    (case plugin_call_method h s current img args kwargs' of
                       (Inl e, s') \<Rightarrow> (Inl e, s')
                     | (Inr result, s') \<Rightarrow> (plugin_serialize_result h s' result, s')))))"

definition success_response :: "pyval \<Rightarrow> pyval" where
  "success_response result = PDict [(PStr ''status'', PStr ''success''), (PStr ''result'', result)]"

definition plugin_error_response :: "'s gimp_host \<Rightarrow> pyexn \<Rightarrow> pyval" where
  "plugin_error_response h e =
     PDict [(PStr ''status'', PStr ''error''),
            (PStr ''error'', PStr (exn_str e)),
            (PStr ''traceback'', PStr (format_exc h e))]"

definition plugin_execute_command :: "'s gimp_host \<Rightarrow> 's \<Rightarrow> pyval \<Rightarrow> pyval \<times> 's" where
  "plugin_execute_command h s request =
     (case plugin_try_body h s request of
        (Inr result, s') \<Rightarrow> (success_response result, s')
      | (Inl e, s') \<Rightarrow> (plugin_error_response h e, s'))"

section \<open>\<^verbatim>\<open>MCPPlugin.execute_command\<close> of \<^verbatim>\<open>gimp-mcp-server.py\<close>\<close>

text \<open>The walk of this file starts at the first segment.\<close>

definition server_resolve :: "'s gimp_host \<Rightarrow> 's \<Rightarrow> pyval \<Rightarrow> pyexn + pyval" where
  "server_resolve h s api_path =
     try_bind (py_split_dot h s api_path) (\<lambda>parts. attr_walk h s (PObj (gimp h)) parts)"

text \<open>The branch \<^verbatim>\<open>cmd_type == "call_api"\<close>, up to the serialized result.\<close>

definition server_call_api :: "'s gimp_host \<Rightarrow> 's \<Rightarrow> pyval \<Rightarrow> (pyexn + pyval) \<times> 's" where
  "server_call_api h s params =
     (case py_getitem h s params ''api_path'' of
        Inl e \<Rightarrow> (Inl e, s)
      | Inr api_path \<Rightarrow>
          (case py_get h s params ''args'' (PList []) of
             Inl e \<Rightarrow> (Inl e, s)
           | Inr args \<Rightarrow>
               (case py_get h s params ''kwargs'' (PDict []) of
                  Inl e \<Rightarrow> (Inl e, s)
                | Inr kwargs \<Rightarrow>
                    (case server_resolve h s api_path of
                       Inl e \<Rightarrow> (Inl e, s)
                     | Inr module \<Rightarrow>
                         (case py_invoke h s module args kwargs of
                            (Inl e, s') \<Rightarrow> (Inl e, s')
                          | (Inr result, s') \<Rightarrow> (Inr (server_serialize_result h s' result), s'))))))"

definition server_error_response :: "'s gimp_host \<Rightarrow> pyexn \<Rightarrow> pyval" where
  "server_error_response h e =
     PDict [(PStr ''status'', PStr ''error''),
            (PStr ''message'', PStr (exn_str e)),
            (PStr ''traceback'', PStr (format_exc h e))]"

text \<open>
  The response this \<^verbatim>\<open>execute_command\<close> hands to \<^verbatim>\<open>json.dumps\<close>. The two \<^verbatim>\<open>command.get\<close>
  calls stand before the \<^verbatim>\<open>try\<close>: an exception there leaves the function (\<open>Inl\<close>).
\<close>

definition server_response :: "'s gimp_host \<Rightarrow> 's \<Rightarrow> pyval \<Rightarrow> (pyexn + pyval) \<times> 's" where
  "server_response h s command =
     (case py_get h s command ''type'' PNone of
        Inl e \<Rightarrow> (Inl e, s)
      | Inr cmd_type \<Rightarrow>
          (case py_get h s command ''params'' (PDict []) of
             Inl e \<Rightarrow> (Inl e, s)
           | Inr params \<Rightarrow>
               if cmd_type = PStr ''call_api'' then
                 (case server_call_api h s params of
                    (Inr result, s') \<Rightarrow> (Inr (success_response result), s')
                  | (Inl e, s') \<Rightarrow> (Inr (server_error_response h e), s'))
               else
                 (Inr (PDict [(PStr ''status'', PStr ''error''),
                              (PStr ''message'', PStr (''Unknown command: '' @ py_str h s cmd_type))]),
                  s)))"

section \<open>Sockets and the wire codec\<close>

text \<open>
  A connected socket as its owner sees it: what the successive \<^verbatim>\<open>recv\<close> calls will find
  (chunks of bytes as they arrive, or the exception raised; once the list is used up the
  peer has closed and \<^verbatim>\<open>recv\<close> returns \<^verbatim>\<open>b''\<close>), whether the peer still takes data, the data
  written so far, and whether the owner has closed it.
\<close>

record conn =
  inbox :: "(pyexn + string) list"
  peer_open :: bool
  sent :: "string list"
  closed :: bool

text \<open>\<^verbatim>\<open>sock.recv(n)\<close>: at most \<open>n\<close> bytes of what has arrived.\<close>

definition recv :: "nat \<Rightarrow> conn \<Rightarrow> (pyexn + string) \<times> conn" where
  "recv n c =
     (case inbox c of
        [] \<Rightarrow> (Inr [], c)
      | Inl e # rest \<Rightarrow> (Inl e, c\<lparr>inbox := rest\<rparr>)
      | Inr d # rest \<Rightarrow>
          (Inr (take n d), c\<lparr>inbox := (if length d \<le> n then rest else Inr (drop n d) # rest)\<rparr>))"

text \<open>
  \<^verbatim>\<open>sock.sendall(data)\<close>: the exception raised, if any. It is an OSError; the operating
  system's text for it is not modelled.
\<close>

definition sendall :: "conn \<Rightarrow> string \<Rightarrow> pyexn option \<times> conn" where
  "sendall c data =
     (if peer_open c \<and> \<not> closed c then (None, c\<lparr>sent := sent c @ [data]\<rparr>)
      else (Some (OSError ''send failed''), c))"

definition close :: "conn \<Rightarrow> conn" where
  "close c = c\<lparr>closed := True\<rparr>"

text \<open>
  \<^verbatim>\<open>json.loads\<close> and \<^verbatim>\<open>json.dumps\<close> are the standard library's; the bridge only calls them.
\<close>

record codec =
  json_loads :: "string \<Rightarrow> pyexn + pyval"
  json_dumps :: "pyval \<Rightarrow> pyexn + string"

text \<open>
  Well-formed UTF-8, as Python's strict decoder accepts it: no stray continuation byte, no
  truncated sequence, no overlong form, no surrogate, nothing above U+10FFFF.
\<close>

fun utf8_valid :: "nat list \<Rightarrow> bool" where
  "utf8_valid [] = True"
| "utf8_valid (b # bs) =
     (if b < 128 then utf8_valid bs
      else if 194 \<le> b \<and> b \<le> 223 then
        (case bs of
           c1 # r \<Rightarrow> 128 \<le> c1 \<and> c1 \<le> 191 \<and> utf8_valid r
         | _ \<Rightarrow> False)
      else if 224 \<le> b \<and> b \<le> 239 then
        (case bs of
           c1 # c2 # r \<Rightarrow>
             (if b = 224 then 160 else 128) \<le> c1 \<and> c1 \<le> (if b = 237 then 159 else 191)
             \<and> 128 \<le> c2 \<and> c2 \<le> 191 \<and> utf8_valid r
         | _ \<Rightarrow> False)
      else if 240 \<le> b \<and> b \<le> 244 then
        (case bs of
           c1 # c2 # c3 # r \<Rightarrow>
             (if b = 240 then 144 else 128) \<le> c1 \<and> c1 \<le> (if b = 244 then 143 else 191)
             \<and> 128 \<le> c2 \<and> c2 \<le> 191 \<and> 128 \<le> c3 \<and> c3 \<le> 191 \<and> utf8_valid r
         | _ \<Rightarrow> False)
      else False)"

text \<open>
  \<^verbatim>\<open>data.decode('utf-8')\<close>; the text is represented by its encoding, so a success returns the
  bytes. Python's message for the UnicodeDecodeError names the offending byte and its
  position; the model keeps one text for all of them.
\<close>

definition utf8_decode :: "string \<Rightarrow> pyexn + string" where
  "utf8_decode data =
     (if utf8_valid (map of_char data) then Inr data
      else Inl (UnicodeDecodeError ''utf-8 codec cannot decode bytes''))"

section \<open>\<^verbatim>\<open>MCPPlugin._handle_client\<close> of \<^verbatim>\<open>gimp-mcp-plugin.py\<close>\<close>

text \<open>
  One \<^verbatim>\<open>recv(4096)\<close>, one decode, one \<^verbatim>\<open>execute_command\<close>, one \<^verbatim>\<open>sendall\<close>, then \<^verbatim>\<open>close\<close>.
  Nothing in the method catches an exception: the first component of the result is the
  exception that leaves the handler thread, if any.
\<close>

definition plugin_handle_client ::
  "'s gimp_host \<Rightarrow> codec \<Rightarrow> 's \<Rightarrow> conn \<Rightarrow> pyexn option \<times> 's \<times> conn" where
  "plugin_handle_client h cd s client =
     (case recv 4096 client of
        (Inl e, c1) \<Rightarrow> (Some e, s, c1)
      | (Inr data, c1) \<Rightarrow>
          (case utf8_decode ([] @ data) of
             Inl e \<Rightarrow> (Some e, s, c1)
           | Inr text \<Rightarrow>
               (case json_loads cd text of
                  Inl e \<Rightarrow> (Some e, s, c1)
                | Inr request \<Rightarrow>
                    (case plugin_execute_command h s request of
                       (response, s') \<Rightarrow>
                         (case json_dumps cd response of
                            Inl e \<Rightarrow> (Some e, s', c1)
                          | Inr response_data \<Rightarrow>
                              (case sendall c1 response_data of
                                 (Some e, c2) \<Rightarrow> (Some e, s', c2)
                               | (None, c2) \<Rightarrow> (None, s', close c2)))))))"

section \<open>\<^verbatim>\<open>MCPPlugin.handle_client\<close> and the idle callback of \<^verbatim>\<open>gimp-mcp-server.py\<close>\<close>

fun inbox_size :: "(pyexn + string) list \<Rightarrow> nat" where
  "inbox_size [] = 0"
| "inbox_size (Inl e # xs) = Suc (inbox_size xs)"
| "inbox_size (Inr d # xs) = Suc (length d + inbox_size xs)"

lemma recv_consumes:
  assumes "recv n c = (Inr data, c1)" and "data \<noteq> []"
  shows "inbox_size (inbox c1) < inbox_size (inbox c)"
proof (cases "inbox c")
  case Nil
  with assms show ?thesis by (simp add: recv_def)
next
  case (Cons x rest)
  show ?thesis
  proof (cases x)
    case (Inl e)
    with Cons assms show ?thesis by (simp add: recv_def)
  next
    case (Inr d)
    with Cons assms have data: "data = take n d"
      and c1: "inbox c1 = (if length d \<le> n then rest else Inr (drop n d) # rest)"
      by (auto simp: recv_def)
    from data assms(2) have "0 < n" "d \<noteq> []" by auto
    with c1 Cons Inr show ?thesis by auto
  qed
qed

text \<open>
  The \<^verbatim>\<open>while True\<close> loop of \<^verbatim>\<open>handle_client\<close>. \<open>queue\<close> collects, in order, the commands
  handed to \<^verbatim>\<open>GLib.idle_add(self.execute_command, command, client)\<close>. A
  \<^verbatim>\<open>json.JSONDecodeError\<close> continues the loop with the buffer kept; any other exception, and
  an empty read, leave it.
\<close>

function server_client_loop :: "codec \<Rightarrow> string \<Rightarrow> pyval list \<Rightarrow> conn \<Rightarrow> pyval list \<times> conn" where
  "server_client_loop cd buffer queue client =
     (case recv 1024 client of
        (Inl e, c1) \<Rightarrow> (queue, c1)
      | (Inr data, c1) \<Rightarrow>
          if data = [] then (queue, c1)
          else
            (case utf8_decode (buffer @ data) of
               Inl e \<Rightarrow> (queue, c1)
             | Inr text \<Rightarrow>
                 (case json_loads cd text of
                    Inr command \<Rightarrow> server_client_loop cd [] (queue @ [command]) c1
                  | Inl (JSONDecodeError m) \<Rightarrow> server_client_loop cd (buffer @ data) queue c1
                  | Inl e \<Rightarrow> (queue, c1))))"
  by pat_completeness auto
termination
  by (relation "measure (\<lambda>(cd, buffer, queue, client). inbox_size (inbox client))")
     (auto dest: recv_consumes [OF sym])

declare server_client_loop.simps [simp del]

text \<open>\<^verbatim>\<open>handle_client\<close>, read by the handler thread alone: the commands queued and the socket after \<^verbatim>\<open>client.close()\<close>.\<close>

definition server_handle_client :: "codec \<Rightarrow> conn \<Rightarrow> pyval list \<times> conn" where
  "server_handle_client cd client =
     (case server_client_loop cd [] [] client of (queue, c1) \<Rightarrow> (queue, close c1))"

text \<open>
  The idle callback \<^verbatim>\<open>execute_command(command, client)\<close>: the response of
  \<open>server_response\<close> is encoded and written to the client. The first component is the
  exception that leaves the callback, if any.
\<close>

definition server_execute_command ::
  "'s gimp_host \<Rightarrow> codec \<Rightarrow> 's \<Rightarrow> pyval \<Rightarrow> conn \<Rightarrow> pyexn option \<times> 's \<times> conn" where
  "server_execute_command h cd s command client =
     (case server_response h s command of
        (Inl e, s') \<Rightarrow> (Some e, s', client)
      | (Inr response, s') \<Rightarrow>
          (case json_dumps cd response of
             Inl e \<Rightarrow> (Some e, s', client)
           | Inr text \<Rightarrow>
               (case sendall client text of
                  (Some e, c1) \<Rightarrow> (Some e, s', c1)
                | (None, c1) \<Rightarrow> (None, s', c1))))"

text \<open>GIMP's main loop runs the queued callbacks one after the other; an exception in one does not stop the loop.\<close>

fun run_idle_callbacks ::
  "'s gimp_host \<Rightarrow> codec \<Rightarrow> 's \<Rightarrow> pyval list \<Rightarrow> conn \<Rightarrow> 's \<times> conn" where
  "run_idle_callbacks h cd s [] client = (s, client)"
| "run_idle_callbacks h cd s (command # queue) client =
     (case server_execute_command h cd s command client of
        (e, s', c1) \<Rightarrow> run_idle_callbacks h cd s' queue c1)"

text \<open>
  A whole connection under the schedule in which the main loop is idle: every callback runs
  while the handler thread waits in its next \<^verbatim>\<open>recv\<close>, so before \<^verbatim>\<open>client.close()\<close>. The
  handler only consumes the inbox and the callbacks only write, so the callbacks can be
  run after the loop has read everything.
\<close>

definition server_session :: "'s gimp_host \<Rightarrow> codec \<Rightarrow> 's \<Rightarrow> conn \<Rightarrow> 's \<times> conn" where
  "server_session h cd s client =
     (case server_client_loop cd [] [] client of
        (queue, c1) \<Rightarrow>
          (case run_idle_callbacks h cd s queue c1 of (s', c2) \<Rightarrow> (s', close c2)))"

section \<open>\<^verbatim>\<open>GimpConnection\<close> of \<^verbatim>\<open>src/gimp_mcp/server.py\<close>, the controller side\<close>

record gimp_connection =
  host :: string
  port :: nat
  sock :: "conn option"

text \<open>
  What the network does when a connection is opened: \<^verbatim>\<open>socket.socket(...)\<close> gives a socket or
  raises, and \<^verbatim>\<open>sock.connect(...)\<close> may raise. A socket whose \<^verbatim>\<open>connect\<close> failed takes no data.
\<close>

record net =
  new_socket :: "pyexn + conn"
  connect_error :: "pyexn option"

text \<open>\<^verbatim>\<open>socket.error\<close> is \<^verbatim>\<open>OSError\<close>; \<^verbatim>\<open>socket.timeout\<close> and \<^verbatim>\<open>ConnectionError\<close> are subclasses of it.\<close>

fun is_socket_error :: "pyexn \<Rightarrow> bool" where
  "is_socket_error (OSError m) = True"
| "is_socket_error SocketTimeout = True"
| "is_socket_error (ConnectionError m) = True"
| "is_socket_error e = False"

text \<open>\<^verbatim>\<open>_close_socket\<close>: \<^verbatim>\<open>shutdown\<close> may fail and is ignored; the socket is closed and forgotten.\<close>

definition close_socket :: "gimp_connection \<Rightarrow> gimp_connection" where
  "close_socket self = (case sock self of None \<Rightarrow> self | Some c \<Rightarrow> self\<lparr>sock := None\<rparr>)"

text \<open>The three \<^verbatim>\<open>except\<close> clauses of \<^verbatim>\<open>connect\<close>, in their order.\<close>

definition connect_failure :: "pyexn \<Rightarrow> pyexn" where
  "connect_failure e =
     (if e = SocketTimeout then
        ConnectionError ''Connection to GIMP timed out. Ensure the MCP Server plugin is running and responsive.''
      else if is_socket_error e then
        ConnectionError (''Could not connect to GIMP. Ensure the MCP Server plugin is running. Error: '' @ exn_str e)
      else
        ConnectionError (''An unexpected error occurred while connecting to GIMP: '' @ exn_str e))"

definition connect :: "net \<Rightarrow> gimp_connection \<Rightarrow> pyexn option \<times> gimp_connection" where
  "connect nw self =
     (case sock self of
        Some c \<Rightarrow> (None, self)
      | None \<Rightarrow>
          (case new_socket nw of
             Inl e \<Rightarrow> (Some (connect_failure e), close_socket self)
           | Inr c \<Rightarrow>
               (case connect_error nw of
                  None \<Rightarrow> (None, self\<lparr>sock := Some c\<rparr>)
                | Some e \<Rightarrow>
                    (Some (connect_failure e),
                     close_socket (self\<lparr>sock := Some (c\<lparr>peer_open := False\<rparr>)\<rparr>)))))"

text \<open>The receive loop of \<^verbatim>\<open>send_command\<close>: chunks of up to 4096 bytes until the peer closes.\<close>

function recv_response :: "conn \<Rightarrow> string \<Rightarrow> (pyexn + string) \<times> conn" where
  "recv_response c response_data =
     (case recv 4096 c of
        (Inl e, c1) \<Rightarrow>
          if e = SocketTimeout then
            (Inl (PlainException ''Timeout receiving data from GIMP.''), c1)
          else if is_socket_error e then
            (Inl (PlainException (''Socket error receiving data from GIMP: '' @ exn_str e)), c1)
          else (Inl e, c1)
      | (Inr chunk, c1) \<Rightarrow>
          if chunk = [] then (Inr response_data, c1)
          else recv_response c1 (response_data @ chunk))"
  by pat_completeness auto
termination
  by (relation "measure (\<lambda>(c, response_data). inbox_size (inbox c))")
     (auto dest: recv_consumes [OF sym])

declare recv_response.simps [simp del]

text \<open>The body of the \<^verbatim>\<open>try\<close> of \<^verbatim>\<open>send_command\<close>, on the socket in use.\<close>

definition exchange :: "codec \<Rightarrow> conn \<Rightarrow> pyval \<Rightarrow> (pyexn + pyval) \<times> conn" where
  "exchange cd c command =
     (case json_dumps cd command of
        Inl e \<Rightarrow> (Inl e, c)
      | Inr text \<Rightarrow>
          (case sendall c text of
             (Some e, c1) \<Rightarrow> (Inl e, c1)
           | (None, c1) \<Rightarrow>
               (case recv_response c1 [] of
                  (Inl e, c2) \<Rightarrow> (Inl e, c2)
                | (Inr response_data, c2) \<Rightarrow>
                    if response_data = [] then
                      (Inl (PlainException ''No response data from GIMP (connection closed).''), c2)
                    else
                      (case utf8_decode response_data of
                         Inl e \<Rightarrow> (Inl e, c2)
                       | Inr text' \<Rightarrow>
                           (case json_loads cd text' of
                              Inr v \<Rightarrow> (Inr v, c2)
                            | Inl (JSONDecodeError m) \<Rightarrow>
                                (Inl (PlainException (''Invalid JSON response from GIMP: '' @ m)), c2)
                            | Inl e \<Rightarrow> (Inl e, c2))))))"

text \<open>The two outer \<^verbatim>\<open>except\<close> clauses of \<^verbatim>\<open>send_command\<close>.\<close>

definition communication_failure :: "pyexn \<Rightarrow> pyexn" where
  "communication_failure e =
     (if is_socket_error e then
        PlainException (''Socket error communicating with GIMP: '' @ exn_str e)
      else PlainException (''Error communicating with GIMP: '' @ exn_str e))"

text \<open>
  \<^verbatim>\<open>send_command(command_type, params)\<close>: the value returned or the exception raised, and the
  connection object afterwards. The \<^verbatim>\<open>finally\<close> clause runs on every way out of the \<^verbatim>\<open>try\<close>.
\<close>

definition send_command ::
  "codec \<Rightarrow> net \<Rightarrow> gimp_connection \<Rightarrow> string \<Rightarrow> pyval \<Rightarrow> (pyexn + pyval) \<times> gimp_connection" where
  "send_command cd nw self command_type params =
     (case (if sock self = None then connect nw self else (None, self)) of
        (Some e, self1) \<Rightarrow> (Inl e, self1)
      | (None, self1) \<Rightarrow>
          (let command =
                 PDict [(PStr ''type'', PStr command_type),
                        (PStr ''params'', if py_truthy (\<lambda>r. True) params then params else PDict [])]
           in
             (case sock self1 of
                None \<Rightarrow>
                  (Inl (communication_failure (AttributeError (quoted ''NoneType'' @ '' object'') ''sendall'')),
                   close_socket self1)
              | Some c \<Rightarrow>
                  (case exchange cd c command of
                     (Inr v, c1) \<Rightarrow> (Inr v, close_socket (self1\<lparr>sock := Some c1\<rparr>))
                   | (Inl e, c1) \<Rightarrow>
                       (Inl (communication_failure e), close_socket (self1\<lparr>sock := Some c1\<rparr>))))))"

section \<open>\<^verbatim>\<open>GimpConnection\<close> of the older \<^verbatim>\<open>server.py\<close>\<close>

definition old_connect :: "net \<Rightarrow> gimp_connection \<Rightarrow> pyexn option \<times> gimp_connection" where
  "old_connect nw self =
     (case sock self of
        Some c \<Rightarrow> (None, self)
      | None \<Rightarrow>
          (case new_socket nw of
             Inl e \<Rightarrow>
               (Some (ConnectionError ''Could not connect to GIMP. Ensure the MCP Server plugin is running.''), self)
           | Inr c \<Rightarrow>
               (case connect_error nw of
                  None \<Rightarrow> (None, self\<lparr>sock := Some c\<rparr>)
                | Some e \<Rightarrow>
                    (Some (ConnectionError ''Could not connect to GIMP. Ensure the MCP Server plugin is running.''),
                     self\<lparr>sock := Some (c\<lparr>peer_open := False\<rparr>)\<rparr>))))"

text \<open>The body of its \<^verbatim>\<open>try\<close>: one \<^verbatim>\<open>sendall\<close>, one \<^verbatim>\<open>recv(1024)\<close>, one decode.\<close>

definition old_exchange :: "codec \<Rightarrow> conn \<Rightarrow> pyval \<Rightarrow> (pyexn + pyval) \<times> conn" where
  "old_exchange cd c command =
     (case json_dumps cd command of
        Inl e \<Rightarrow> (Inl e, c)
      | Inr text \<Rightarrow>
          (case sendall c text of
             (Some e, c1) \<Rightarrow> (Inl e, c1)
           | (None, c1) \<Rightarrow>
               (case recv 1024 c1 of
                  (Inl e, c2) \<Rightarrow> (Inl e, c2)
                | (Inr response, c2) \<Rightarrow>
                    (case utf8_decode response of
                       Inl e \<Rightarrow> (Inl e, c2)
                     | Inr text' \<Rightarrow>
                         (case json_loads cd text' of
                            Inl e \<Rightarrow> (Inl e, c2)
                          | Inr v \<Rightarrow> (Inr v, c2))))))"

text \<open>
  The older \<^verbatim>\<open>send_command\<close>: \<^verbatim>\<open>connect\<close> stands before the \<^verbatim>\<open>try\<close>, and both ways out of the
  \<^verbatim>\<open>try\<close> set \<^verbatim>\<open>self.sock = None\<close>.
\<close>

definition old_send_command ::
  "codec \<Rightarrow> net \<Rightarrow> gimp_connection \<Rightarrow> string \<Rightarrow> pyval \<Rightarrow> (pyexn + pyval) \<times> gimp_connection" where
  "old_send_command cd nw self command_type params =
     (case (if sock self = None then old_connect nw self else (None, self)) of
        (Some e, self1) \<Rightarrow> (Inl e, self1)
      | (None, self1) \<Rightarrow>
          (let command =
                 PDict [(PStr ''type'', PStr command_type),
                        (PStr ''params'', if py_truthy (\<lambda>r. True) params then params else PDict [])]
           in
             (case sock self1 of
                None \<Rightarrow>
                  (Inl (PlainException (''Error communicating with GIMP: ''
                          @ exn_str (AttributeError (quoted ''NoneType'' @ '' object'') ''sendall''))),
                   self1\<lparr>sock := None\<rparr>)
              | Some c \<Rightarrow>
                  (case old_exchange cd c command of
                     (Inr v, c1) \<Rightarrow> (Inr v, self1\<lparr>sock := None\<rparr>)
                   | (Inl e, c1) \<Rightarrow>
                       (Inl (PlainException (''Error communicating with GIMP: '' @ exn_str e)),
                        self1\<lparr>sock := None\<rparr>)))))"

section \<open>The resolver, in the words of the specification\<close>

text \<open>
  For comparison with the code: split the path on the dot, discard the first segment, and
  for each remaining segment replace the current value by the lookup of that segment on it.
  The first undefined lookup fails, naming the value reached and the segment.
\<close>

definition spec_lookup :: "'s gimp_host \<Rightarrow> 's \<Rightarrow> (pyval \<times> string) + pyval \<Rightarrow> string \<Rightarrow> (pyval \<times> string) + pyval" where
  "spec_lookup h s current segment =
     (case current of
        Inl failure \<Rightarrow> Inl failure
      | Inr v \<Rightarrow> (case py_getattr h s v segment of None \<Rightarrow> Inl (v, segment) | Some u \<Rightarrow> Inr u))"

definition spec_resolve :: "'s gimp_host \<Rightarrow> 's \<Rightarrow> string \<Rightarrow> (pyval \<times> string) + pyval" where
  "spec_resolve h s path =
     foldl (spec_lookup h s) (Inr (PObj (gimp h))) (tl (split_on CHR ''.'' path))"

section \<open>A small host and codec, for concrete runs\<close>

text \<open>
  A fragment of a GIMP session: the namespace \<^verbatim>\<open>Gimp\<close> (object 0) with \<^verbatim>\<open>Gimp.Image\<close> (1),
  \<^verbatim>\<open>Gimp.Display\<close> (2), \<^verbatim>\<open>Gimp.get_images\<close> (3), \<^verbatim>\<open>Gimp.Image.get_by_id\<close> (4) and
  \<^verbatim>\<open>Gimp.Display.new\<close> (5, whose one parameter is called \<^verbatim>\<open>image\<close>); one open image
  (object 10, of id 7) and the display that \<^verbatim>\<open>Gimp.Display.new\<close> returns (object 20,
  of id 5 and named Sprocket). The state is the list of the calls made so far.
\<close>

type_synonym call_log = "(ref \<times> pyval list \<times> (string \<times> pyval) list) list"

definition demo_attr :: "ref \<Rightarrow> string \<Rightarrow> pyval option" where
  "demo_attr r name =
     (if r = 0 then
        map_of [(''Image'', PObj 1), (''Display'', PObj 2), (''get_images'', PObj 3)] name
      else if r = 1 then map_of [(''get_by_id'', PObj 4)] name
      else if r = 2 then map_of [(''new'', PObj 5)] name
      else if r = 10 then map_of [(''id'', PInt 7)] name
      else if r = 20 then map_of [(''id'', PInt 5), (''name'', PStr ''Sprocket'')] name
      else None)"

definition demo_signature :: "ref \<Rightarrow> pyexn + string list" where
  "demo_signature r =
     (if r = 3 then Inr []
      else if r = 4 then Inr [''image_id'']
      else if r = 5 then Inr [''image'']
      else Inl (TypeError ''not a callable object''))"

definition demo_call ::
  "call_log \<Rightarrow> ref \<Rightarrow> pyval list \<Rightarrow> (string \<times> pyval) list \<Rightarrow> (pyexn + pyval) \<times> call_log" where
  "demo_call s r pos kws =
     ((if r = 3 then Inr (PList [PObj 10])
       else if r = 4 then Inr (if pos = [PInt 7] then PObj 10 else PNone)
       else if r = 5 then Inr (PObj 20)
       else Inl (HostError ''no such procedure'')),
      s @ [(r, pos, kws)])"

definition demo_class :: "ref \<Rightarrow> string" where
  "demo_class r =
     (if r = 0 then ''gi.repository.Gimp''
      else if r = 10 then ''Image''
      else if r = 20 then ''Display''
      else if r = 1 \<or> r = 2 then ''type''
      else ''function'')"

definition demo_owner_text :: "ref \<Rightarrow> string" where
  "demo_owner_text r =
     (if r = 1 then ''type object '' @ quoted ''Image''
      else if r = 2 then ''type object '' @ quoted ''Display''
      else quoted (demo_class r) @ '' object'')"

definition demo_func_text :: "ref \<Rightarrow> string" where
  "demo_func_text r =
     (if r = 3 then ''gi.repository.Gimp.get_images()''
      else if r = 4 then ''gi.repository.Gimp.Image.get_by_id()''
      else if r = 5 then ''gi.repository.Gimp.Display.new()''
      else ''<'' @ demo_class r @ '' object>'')"

fun demo_repr :: "pyval \<Rightarrow> string" where
  "demo_repr (PFloat m e) = (if m = 7070651414971679 \<and> e = - 51 then ''3.14'' else ''nan'')"
| "demo_repr (PObj r) = ''<'' @ demo_class r @ '' object>''"
| "demo_repr v = ''[...]''"

fun demo_get_by_id :: "pyval \<Rightarrow> pyexn + pyval" where
  "demo_get_by_id (PInt i) = Inr (if i = 7 then PObj 10 else PNone)"
| "demo_get_by_id v = Inl (TypeError ''Must be number'')"

definition demo_host :: "call_log gimp_host" where
  "demo_host =
     \<lparr>gimp = 0,
      obj_attr = (\<lambda>s. demo_attr),
      builtin_attr = (\<lambda>v name. None),
      obj_callable = (\<lambda>s r. r = 3 \<or> r = 4 \<or> r = 5),
      obj_signature = (\<lambda>s. demo_signature),
      obj_call = demo_call,
      obj_class = (\<lambda>s. demo_class),
      obj_truthy = (\<lambda>s r. True),
      py_repr = (\<lambda>s. demo_repr),
      image_get_by_id = (\<lambda>s. demo_get_by_id),
      image_get_id = (\<lambda>s v. if v = PObj 10 then Inr (PInt 7) else Inl (TypeError ''Must be Gimp.Image'')),
      format_exc = (\<lambda>e. ''Traceback (most recent call last): '' @ exn_str e),
      obj_owner_text = (\<lambda>s. demo_owner_text),
      obj_func_text = (\<lambda>s. demo_func_text)\<rparr>"

text \<open>
  A stand-in for \<^verbatim>\<open>json.dumps\<close> on the values of the examples: the default separators, and
  the escapes of the double quote, the backslash and the newline. Other control characters
  and non-ASCII text, which \<^verbatim>\<open>json.dumps\<close> writes as \<^verbatim>\<open>\uXXXX\<close>, and floats are outside it.
\<close>

fun join :: "string \<Rightarrow> string list \<Rightarrow> string" where
  "join sep [] = []"
| "join sep [x] = x"
| "join sep (x # y # ys) = x @ sep @ join sep (y # ys)"

definition json_escape :: "char \<Rightarrow> string option" where
  "json_escape c =
     (if c = CHR 0x22 then Some [CHR 0x5C, CHR 0x22]
      else if c = CHR 0x5C then Some [CHR 0x5C, CHR 0x5C]
      else if c = CHR 0x0A then Some [CHR 0x5C, CHR ''n'']
      else if (of_char c :: nat) < 32 \<or> 127 \<le> (of_char c :: nat) then None
      else Some [c])"

definition json_string :: "string \<Rightarrow> string option" where
  "json_string t = map_option (\<lambda>ys. CHR 0x22 # concat ys @ [CHR 0x22]) (those (map json_escape t))"

fun json_member :: "string option \<times> string option \<Rightarrow> string option" where
  "json_member (Some k, Some v) = Some (k @ '': '' @ v)"
| "json_member p = None"

primrec json_key :: "pyval \<Rightarrow> string option" where
  "json_key PNone = None"
| "json_key (PBool b) = None"
| "json_key (PInt i) = None"
| "json_key (PFloat m e) = None"
| "json_key (PStr t) = json_string t"
| "json_key (PList xs) = None"
| "json_key (PDict kvs) = None"
| "json_key (PObj r) = None"

primrec demo_render :: "pyval \<Rightarrow> string option" where
  "demo_render PNone = Some ''null''"
| "demo_render (PBool b) = Some (if b then ''true'' else ''false'')"
| "demo_render (PInt i) = Some (int_str i)"
| "demo_render (PFloat m e) = None"
| "demo_render (PStr t) = json_string t"
| "demo_render (PList xs) =
     map_option (\<lambda>ys. ''['' @ join '', '' ys @ '']'') (those (map demo_render xs))"
| "demo_render (PDict kvs) =
     map_option (\<lambda>ys. ''{'' @ join '', '' ys @ ''}'')
       (those (map json_member (map (map_prod json_key demo_render) kvs)))"
| "demo_render (PObj r) = None"

text \<open>
  A stand-in for \<^verbatim>\<open>json.loads\<close>: it knows the four request texts and the one response text of the examples and rejects
  every other text, among them every proper prefix of a request.
\<close>

definition get_images_text :: string where
  \<open>get_images_text = ''{"type": "call_api", "params": {"api_path": "Gimp.get_images"}}''\<close>

definition get_images_request :: pyval where
  "get_images_request =
     PDict [(PStr ''type'', PStr ''call_api''),
            (PStr ''params'', PDict [(PStr ''api_path'', PStr ''Gimp.get_images'')])]"

definition missing_text :: string where
  \<open>missing_text = ''{"type": "call_api", "params": {"api_path": "Gimp.Image.missing_method"}}''\<close>

definition missing_request :: pyval where
  "missing_request =
     PDict [(PStr ''type'', PStr ''call_api''),
            (PStr ''params'', PDict [(PStr ''api_path'', PStr ''Gimp.Image.missing_method'')])]"

text \<open>A request with the non-ASCII name \<^verbatim>\<open>caf\<close>+U+00E9, whose last letter is the two bytes C3 A9: the text up to and with the byte C3, and the rest.\<close>

definition accent_head :: string where
  \<open>accent_head = ''{"type": "call_api", "params": {"api_path": "get_images", "kwargs": {"name": "caf'' @ [CHR 0xC3]\<close>

definition accent_tail :: string where
  \<open>accent_tail = CHR 0xA9 # ''"}}}''\<close>

definition accent_request :: pyval where
  "accent_request =
     PDict [(PStr ''type'', PStr ''call_api''),
            (PStr ''params'',
             PDict [(PStr ''api_path'', PStr ''get_images''),
                    (PStr ''kwargs'', PDict [(PStr ''name'', PStr (''caf'' @ [CHR 0xC3, CHR 0xA9]))])])]"

text \<open>The same call as \<^verbatim>\<open>gimp-mcp-server.py\<close> can resolve it, with a path that starts below the namespace.\<close>

definition bare_get_images_text :: string where
  \<open>bare_get_images_text = ''{"type": "call_api", "params": {"api_path": "get_images"}}''\<close>

definition bare_get_images_request :: pyval where
  "bare_get_images_request =
     PDict [(PStr ''type'', PStr ''call_api''),
            (PStr ''params'', PDict [(PStr ''api_path'', PStr ''get_images'')])]"

text \<open>The response to \<^verbatim>\<open>Gimp.get_images\<close> when no image is open.\<close>

definition no_images_text :: string where
  \<open>no_images_text = ''{"status": "success", "result": []}''\<close>

definition no_images_response :: pyval where
  "no_images_response = PDict [(PStr ''status'', PStr ''success''), (PStr ''result'', PList [])]"

definition demo_codec :: codec where
  "demo_codec =
     \<lparr>json_loads = (\<lambda>t. if t = get_images_text then Inr get_images_request
                          else if t = missing_text then Inr missing_request
                          else if t = accent_head @ accent_tail then Inr accent_request
                          else if t = bare_get_images_text then Inr bare_get_images_request
                          else if t = no_images_text then Inr no_images_response
                          else Inl (JSONDecodeError ''Expecting value'')),
      json_dumps = (\<lambda>v. case demo_render v of
                           Some t \<Rightarrow> Inr t
                         | None \<Rightarrow> Inl (TypeError ''Object is not JSON serializable''))\<rparr>"

definition fresh_conn :: "(pyexn + string) list \<Rightarrow> conn" where
  "fresh_conn arrivals = \<lparr>inbox = arrivals, peer_open = True, sent = [], closed = False\<rparr>"

definition display_new_request :: "pyval \<Rightarrow> pyval \<Rightarrow> pyval" where
  "display_new_request args kwargs =
     PDict [(PStr ''type'', PStr ''call_api''),
            (PStr ''params'',
             PDict [(PStr ''api_path'', PStr ''Gimp.Display.new''),
                    (PStr ''args'', args),
                    (PStr ''kwargs'', kwargs)])]"

definition localhost :: gimp_connection where
  "localhost = \<lparr>host = ''localhost'', port = 9877, sock = None\<rparr>"

lemmas demo_defs =
  demo_host_def demo_attr_def demo_signature_def demo_call_def demo_class_def
  demo_owner_text_def demo_func_text_def
  display_new_request_def

lemmas codec_defs =
  demo_codec_def get_images_text_def get_images_request_def missing_text_def missing_request_def
  accent_head_def accent_tail_def accent_request_def bare_get_images_text_def
  bare_get_images_request_def no_images_text_def no_images_response_def
  json_string_def json_escape_def int_str_def

lemmas socket_defs = recv_def sendall_def close_def fresh_conn_def utf8_decode_def

lemmas plugin_defs =
  plugin_execute_command_def plugin_try_body_def plugin_get_params_def plugin_get_image_def
  plugin_resolve_def plugin_call_method_def py_invoke_def plugin_serialize_result_def
  plugin_serialize_gimp_object_def try_bind_def getattr_or_raise_def success_response_def
  plugin_error_response_def

lemmas server_defs =
  server_response_def server_call_api_def server_resolve_def
  server_serialize_result_def server_serialize_gimp_object_def server_error_response_def

section \<open>Facts about the runtime primitives\<close>

lemma int_str_42: "int_str 42 = ''42''"
  by code_simp

text \<open>The keyword arguments unpacked from a dictionary are its entries, under the same keys.\<close>

lemma keyword_items_lookup:
  "try_map keyword_item kvs = Inr kws \<Longrightarrow> map_of kws k = map_of kvs (PStr k)"
proof (induction kvs arbitrary: kws)
  case Nil
  then show ?case by simp
next
  case (Cons p kvs)
  obtain a v where p: "p = (a, v)" by (cases p)
  from Cons.prems p obtain t where a: "a = PStr t"
    by (cases a) (auto split: sum.splits)
  from Cons.prems p a obtain rest where rest: "try_map keyword_item kvs = Inr rest"
    and kws: "kws = (t, v) # rest"
    by (auto split: sum.splits)
  from Cons.IH [OF rest] p a kws show ?case by simp
qed

text \<open>None of the steps before the call consults the host's call capability.\<close>

lemma py_class_name_call_free [simp]:
  "py_class_name (h\<lparr>obj_call := c\<rparr>) s v = py_class_name h s v"
  by (cases v) simp_all

lemma py_owner_text_call_free [simp]:
  "py_owner_text (h\<lparr>obj_call := c\<rparr>) s v = py_owner_text h s v"
  by (cases v) simp_all

lemma py_get_call_free [simp]: "py_get (h\<lparr>obj_call := c\<rparr>) s v k d = py_get h s v k d"
  by (cases v) simp_all

lemma py_getattr_call_free [simp]:
  "py_getattr (h\<lparr>obj_call := c\<rparr>) s v n = py_getattr h s v n"
  by (cases v) simp_all

lemma attr_walk_call_free [simp]:
  "attr_walk (h\<lparr>obj_call := c\<rparr>) s v parts = attr_walk h s v parts"
  by (induction parts arbitrary: v) (simp_all add: getattr_or_raise_def split: option.splits)

lemma py_split_dot_call_free [simp]:
  "py_split_dot (h\<lparr>obj_call := c\<rparr>) s v = py_split_dot h s v"
  by (cases v) simp_all

lemma py_delitem_call_free [simp]:
  "py_delitem (h\<lparr>obj_call := c\<rparr>) s v k = py_delitem h s v k"
  by (cases v) simp_all

lemma plugin_get_params_call_free [simp]:
  "plugin_get_params (h\<lparr>obj_call := c\<rparr>) s request = plugin_get_params h s request"
  by (simp add: plugin_get_params_def cong: if_cong)

lemma plugin_get_image_call_free [simp]:
  "plugin_get_image (h\<lparr>obj_call := c\<rparr>) s kwargs = plugin_get_image h s kwargs"
  by (simp add: plugin_get_image_def cong: if_cong)

lemma plugin_resolve_call_free [simp]:
  "plugin_resolve (h\<lparr>obj_call := c\<rparr>) s api_path = plugin_resolve h s api_path"
  by (simp add: plugin_resolve_def)

section \<open>The result serializer on scalars\<close>

text \<open>
  C1, as the code has it. Neither serializer has a branch for scalars: a value without the
  identity attribute that is not a list goes to \<^verbatim>\<open>str(result)\<close>. So of the scalars only a
  string comes back unchanged; None, True, False, 42 and a float such as 3.14 come back as
  the strings \<^verbatim>\<open>"None"\<close>, \<^verbatim>\<open>"True"\<close>, \<^verbatim>\<open>"False"\<close>, \<^verbatim>\<open>"42"\<close> and the float's text. No scalar is
  reduced to an object handle. This holds in \<^verbatim>\<open>gimp-mcp-plugin.py\<close> and in
  \<^verbatim>\<open>gimp-mcp-server.py\<close>.
\<close>

theorem serialize_scalars_to_text:
  "plugin_serialize_result h s (PStr t) = Inr (PStr t)
   \<and> plugin_serialize_result h s PNone = Inr (PStr ''None'')
   \<and> plugin_serialize_result h s (PBool True) = Inr (PStr ''True'')
   \<and> plugin_serialize_result h s (PBool False) = Inr (PStr ''False'')
   \<and> plugin_serialize_result h s (PInt 42) = Inr (PStr ''42'')
   \<and> plugin_serialize_result h s (PFloat m e) = Inr (PStr (py_repr h s (PFloat m e)))
   \<and> server_serialize_result h s (PStr t) = PStr t
   \<and> server_serialize_result h s PNone = PStr ''None''
   \<and> server_serialize_result h s (PBool True) = PStr ''True''
   \<and> server_serialize_result h s (PBool False) = PStr ''False''
   \<and> server_serialize_result h s (PInt 42) = PStr ''42''
   \<and> server_serialize_result h s (PFloat m e) = PStr (py_repr h s (PFloat m e))"
  by (simp add: plugin_serialize_result_def server_serialize_result_def int_str_42)

text \<open>
  C1 as stated fails: the integer 42 is serialized to the string \<^verbatim>\<open>"42"\<close>, not to 42, and the
  float 3.14 (mantissa 7070651414971679, exponent -51) to the string \<^verbatim>\<open>"3.14"\<close>; None and True change too.
\<close>

theorem serialize_scalar_counterexample:
  "plugin_serialize_result demo_host [] (PInt 42) = Inr (PStr ''42'')
   \<and> plugin_serialize_result demo_host [] (PInt 42) \<noteq> Inr (PInt 42)
   \<and> plugin_serialize_result demo_host [] PNone \<noteq> Inr PNone
   \<and> plugin_serialize_result demo_host [] (PBool True) \<noteq> Inr (PBool True)
   \<and> plugin_serialize_result demo_host [] (PFloat 7070651414971679 (- 51)) = Inr (PStr ''3.14'')
   \<and> server_serialize_result demo_host [] (PInt 42) \<noteq> PInt 42"
  by (simp add: plugin_serialize_result_def server_serialize_result_def int_str_42 demo_host_def)

section \<open>The reserved keyword \<^verbatim>\<open>image_id\<close>\<close>



text \<open>
  C10. A truthy \<^verbatim>\<open>image_id\<close> whose lookup succeeds, a path that resolves to a callable whose
  signature has a parameter \<^verbatim>\<open>image\<close>, and \<^verbatim>\<open>args = []\<close>: the assignment \<^verbatim>\<open>args[0] = image\<close>
  raises IndexError, which the \<^verbatim>\<open>except\<close> clause turns into the error response. The callable
  is not invoked: the response and the host state are the same whatever the host's call
  capability \<open>c\<close> is.
\<close>

theorem empty_args_splice_raises:
  assumes params: "plugin_get_params h s request = Inr (api_path, PList [], PDict kvs)"
    and id: "map_of kvs (PStr ''image_id'') = Some v" "py_truthy (obj_truthy h s) v"
    and img: "image_get_by_id h s v = Inr img"
    and path: "plugin_resolve h s api_path = Inr (PObj r)"
    and callee: "obj_callable h s r" "obj_signature h s r = Inr names" "''image'' \<in> set names"
  shows "plugin_execute_command (h\<lparr>obj_call := c\<rparr>) s request =
           (plugin_error_response h (IndexError ''list assignment index out of range''), s)"
proof -
  let ?h = "h\<lparr>obj_call := c\<rparr>"
  have extraction: "plugin_get_image ?h s (PDict kvs) =
      Inr (img, PDict (AList.delete (PStr ''image_id'') kvs))"
    using id img by (simp add: plugin_get_image_def try_bind_def)
  have call: "plugin_call_method ?h s (PObj r) img (PList []) kw =
      (Inl (IndexError ''list assignment index out of range''), s)" for kw
    using callee by (simp add: plugin_call_method_def)
  have "plugin_try_body ?h s request = (Inl (IndexError ''list assignment index out of range''), s)"
    using params extraction path call by (simp add: plugin_try_body_def)
  then show ?thesis
    by (simp add: plugin_execute_command_def plugin_error_response_def)
qed

text \<open>
  C10 on the small host: \<^verbatim>\<open>Gimp.Display.new\<close> with \<^verbatim>\<open>args = []\<close> and \<^verbatim>\<open>kwargs = {"image_id": 7}\<close>.
  The response is the error response of the IndexError and the call log stays empty.
\<close>

theorem empty_args_splice_raises_witness:
  "plugin_execute_command (demo_host\<lparr>obj_call := demo_call\<rparr>) []
       (display_new_request (PList []) (PDict [(PStr ''image_id'', PInt 7)]))
     = (PDict [(PStr ''status'', PStr ''error''),
               (PStr ''error'', PStr ''list assignment index out of range''),
               (PStr ''traceback'',
                PStr ''Traceback (most recent call last): list assignment index out of range'')],
        [])"
proof -
  have 1: "plugin_get_params demo_host []
             (display_new_request (PList []) (PDict [(PStr ''image_id'', PInt 7)]))
           = Inr (PStr ''Gimp.Display.new'', PList [], PDict [(PStr ''image_id'', PInt 7)])"
    by (simp add: plugin_get_params_def try_bind_def demo_defs)
  have 2: "map_of [(PStr ''image_id'', PInt 7)] (PStr ''image_id'') = Some (PInt 7)" by simp
  have 3: "py_truthy (obj_truthy demo_host []) (PInt 7)" by simp
  have 4: "image_get_by_id demo_host [] (PInt 7) = Inr (PObj 10)" by (simp add: demo_defs)
  have 5: "plugin_resolve demo_host [] (PStr ''Gimp.Display.new'') = Inr (PObj 5)"
    by (simp add: plugin_resolve_def try_bind_def getattr_or_raise_def demo_defs)
  have 6: "obj_callable demo_host [] 5" by (simp add: demo_defs)
  have 7: "obj_signature demo_host [] 5 = Inr [''image'']" by (simp add: demo_defs)
  have 8: "''image'' \<in> set [''image'']" by simp
  have response: "plugin_error_response demo_host (IndexError ''list assignment index out of range'')
           = PDict [(PStr ''status'', PStr ''error''),
               (PStr ''error'', PStr ''list assignment index out of range''),
               (PStr ''traceback'',
                PStr ''Traceback (most recent call last): list assignment index out of range'')]"
    by (simp add: plugin_error_response_def demo_defs)
  from empty_args_splice_raises [OF 1 2 3 4 5 6 7 8, of demo_call] response show ?thesis by simp
qed

text \<open>
  C3, as the code has it. The extraction fires for a truthy \<^verbatim>\<open>image_id\<close>. Then the body of the
  \<^verbatim>\<open>try\<close> first asks the host for the image (an exception of the lookup ends the request
  whatever the path is), then walks the path, then calls with the keyword dictionary from
  which \<^verbatim>\<open>image_id\<close> has been deleted. A callable reached with a non-empty argument list
  \<open>a # rest\<close> receives the image in place of \<open>a\<close> exactly when its signature has a
  parameter \<^verbatim>\<open>image\<close>, and \<^verbatim>\<open>image_id\<close> is not among the keywords it receives.
\<close>

theorem truthy_image_id_is_injected:
  assumes params: "plugin_get_params h s request = Inr (api_path, PList (a # rest), PDict kvs)"
    and id: "map_of kvs (PStr ''image_id'') = Some v" "py_truthy (obj_truthy h s) v"
    and callee: "obj_callable h s r" "obj_signature h s r = Inr names"
    and kws: "try_map keyword_item (AList.delete (PStr ''image_id'') kvs) = Inr kws"
  shows "plugin_try_body h s request =
           (case image_get_by_id h s v of
              Inl e \<Rightarrow> (Inl e, s)
            | Inr img \<Rightarrow>
                (case plugin_resolve h s api_path of
                   Inl e \<Rightarrow> (Inl e, s)
                 | Inr current \<Rightarrow>
                     (case plugin_call_method h s current img (PList (a # rest))
                             (PDict (AList.delete (PStr ''image_id'') kvs)) of
                        (Inl e, s') \<Rightarrow> (Inl e, s')
                      | (Inr result, s') \<Rightarrow> (plugin_serialize_result h s' result, s'))))
       \<and> plugin_call_method h s (PObj r) img (PList (a # rest))
             (PDict (AList.delete (PStr ''image_id'') kvs))
           = obj_call h s r ((if ''image'' \<in> set names then img else a) # rest) kws
       \<and> map_of kws ''image_id'' = None"
proof -
  have body: "plugin_try_body h s request =
           (case image_get_by_id h s v of
              Inl e \<Rightarrow> (Inl e, s)
            | Inr img \<Rightarrow>
                (case plugin_resolve h s api_path of
                   Inl e \<Rightarrow> (Inl e, s)
                 | Inr current \<Rightarrow>
                     (case plugin_call_method h s current img (PList (a # rest))
                             (PDict (AList.delete (PStr ''image_id'') kvs)) of
                        (Inl e, s') \<Rightarrow> (Inl e, s')
                      | (Inr result, s') \<Rightarrow> (plugin_serialize_result h s' result, s'))))"
    using params id
    by (simp add: plugin_try_body_def plugin_get_image_def try_bind_def split: sum.splits)
  have call: "plugin_call_method h s (PObj r) img (PList (a # rest))
             (PDict (AList.delete (PStr ''image_id'') kvs))
           = obj_call h s r ((if ''image'' \<in> set names then img else a) # rest) kws"
    using callee kws by (simp add: plugin_call_method_def py_invoke_def)
  have "map_of kws ''image_id'' = map_of (AList.delete (PStr ''image_id'') kvs) (PStr ''image_id'')"
    using kws keyword_items_lookup by simp
  then have gone: "map_of kws ''image_id'' = None"
    by (simp add: AList.delete_conv')
  from body call gone show ?thesis by simp
qed

text \<open>
  C3 on the small host: \<^verbatim>\<open>Gimp.Display.new\<close> with \<^verbatim>\<open>args = [99]\<close> and
  \<^verbatim>\<open>kwargs = {"image_id": 7, "a": 1}\<close>. The host records one call, with the image of id 7
  (object 10) as its only positional argument and \<^verbatim>\<open>a=1\<close> as its only keyword.
\<close>

theorem truthy_image_id_is_injected_witness:
  "plugin_try_body demo_host []
       (display_new_request (PList [PInt 99]) (PDict [(PStr ''image_id'', PInt 7), (PStr ''a'', PInt 1)]))
     = (Inr (PDict [(PStr ''id'', PInt 5)]), [(5, [PObj 10], [(''a'', PInt 1)])])
   \<and> plugin_call_method demo_host [] (PObj 5) (PObj 10) (PList [PInt 99]) (PDict [(PStr ''a'', PInt 1)])
     = (Inr (PObj 20), [(5, [PObj 10], [(''a'', PInt 1)])])
   \<and> map_of [(''a'', PInt 1)] ''image_id'' = None"
proof -
  have 1: "plugin_get_params demo_host []
             (display_new_request (PList [PInt 99])
                (PDict [(PStr ''image_id'', PInt 7), (PStr ''a'', PInt 1)]))
           = Inr (PStr ''Gimp.Display.new'', PList [PInt 99],
                  PDict [(PStr ''image_id'', PInt 7), (PStr ''a'', PInt 1)])"
    by (simp add: plugin_get_params_def try_bind_def demo_defs)
  have 2: "map_of [(PStr ''image_id'', PInt 7), (PStr ''a'', PInt 1)] (PStr ''image_id'') = Some (PInt 7)"
    by simp
  have 3: "py_truthy (obj_truthy demo_host []) (PInt 7)" by simp
  have 4: "obj_callable demo_host [] 5" by (simp add: demo_defs)
  have 5: "obj_signature demo_host [] 5 = Inr [''image'']" by (simp add: demo_defs)
  have 6: "try_map keyword_item
             (AList.delete (PStr ''image_id'') [(PStr ''image_id'', PInt 7), (PStr ''a'', PInt 1)])
           = Inr [(''a'', PInt 1)]"
    by simp
  from truthy_image_id_is_injected [OF 1 2 3 4 5 6, of "PObj 10"] show ?thesis
    by (simp add: plugin_defs demo_defs)
qed

text \<open>
  C3 as stated fails when \<^verbatim>\<open>kwargs\<close> contains \<^verbatim>\<open>image_id\<close> with a falsy value. With
  \<^verbatim>\<open>kwargs = {"image_id": 0, "a": 1}\<close> the request succeeds, and the call the host records
  has None as its first positional argument and \<^verbatim>\<open>image_id=0\<close> among its keywords.
\<close>

theorem image_id_zero_counterexample:
  "plugin_execute_command demo_host []
       (display_new_request (PList [PInt 99]) (PDict [(PStr ''image_id'', PInt 0), (PStr ''a'', PInt 1)]))
     = (PDict [(PStr ''status'', PStr ''success''), (PStr ''result'', PDict [(PStr ''id'', PInt 5)])],
        [(5, [PNone], [(''image_id'', PInt 0), (''a'', PInt 1)])])"
  by (simp add: plugin_defs demo_defs)

section \<open>Path resolution\<close>

lemma spec_lookup_Inl: "spec_lookup h s (Inl failure) segment = Inl failure"
  by (simp add: spec_lookup_def)

lemma spec_lookup_Inr:
  "spec_lookup h s (Inr v) segment =
     (case py_getattr h s v segment of None \<Rightarrow> Inl (v, segment) | Some u \<Rightarrow> Inr u)"
  by (simp add: spec_lookup_def)

lemma spec_lookup_failed: "foldl (spec_lookup h s) (Inl failure) segments = Inl failure"
  by (induction segments) (simp_all add: spec_lookup_Inl)

lemma attr_walk_is_fold:
  "attr_walk h s v segments =
     (case foldl (spec_lookup h s) (Inr v) segments of
        Inl (u, segment) \<Rightarrow> Inl (AttributeError (py_owner_text h s u) segment)
      | Inr w \<Rightarrow> Inr w)"
proof (induction segments arbitrary: v)
  case Nil
  show ?case by simp
next
  case (Cons segment segments)
  show ?case
  proof (cases "py_getattr h s v segment")
    case None
    then show ?thesis
      by (simp add: getattr_or_raise_def spec_lookup_Inr spec_lookup_failed)
  next
    case (Some u)
    with Cons.IH [of u] show ?thesis
      by (simp add: getattr_or_raise_def spec_lookup_Inr)
  qed
qed

text \<open>
  The resolver of \<^verbatim>\<open>gimp-mcp-plugin.py\<close> does what the specification says, for every path:
  it yields the value the walk reaches, or the AttributeError of the first segment whose
  lookup is undefined, naming that segment.
\<close>

lemma plugin_resolve_refines_spec:
  "plugin_resolve h s (PStr path) =
     (case spec_resolve h s path of
        Inl (u, segment) \<Rightarrow> Inl (AttributeError (py_owner_text h s u) segment)
      | Inr w \<Rightarrow> Inr w)"
  by (simp add: plugin_resolve_def spec_resolve_def try_bind_def attr_walk_is_fold drop_Suc)

lemma split_on_first:
  "c \<notin> set a \<Longrightarrow> split_on c (a @ c # b) = a # split_on c b"
  by (induction a) (auto split: list.splits)

text \<open>
  The resolver of \<^verbatim>\<open>gimp-mcp-server.py\<close> looks the first segment up as well: a path that
  starts with a name the namespace does not define fails at that name.
\<close>

lemma server_resolve_looks_up_first_segment:
  assumes "CHR ''.'' \<notin> set first" and "py_getattr h s (PObj (gimp h)) first = None"
  shows "server_resolve h s (PStr (first @ CHR ''.'' # rest)) =
           Inl (AttributeError (obj_owner_text h s (gimp h)) first)"
  using assms
  by (simp add: server_resolve_def try_bind_def split_on_first getattr_or_raise_def)

text \<open>
  C2 on the small host, for the path \<^verbatim>\<open>Gimp.get_images\<close> that the controller's tools send.
  \<^verbatim>\<open>gimp-mcp-plugin.py\<close> skips \<^verbatim>\<open>Gimp\<close> and reaches the function (object 3).
  \<^verbatim>\<open>gimp-mcp-server.py\<close> does not skip it: it looks \<^verbatim>\<open>Gimp\<close> up in the namespace, and the
  request ends in an error response about the attribute \<^verbatim>\<open>Gimp\<close>, with no call made.
\<close>

theorem server_resolve_keeps_first_segment:
  "plugin_resolve demo_host [] (PStr ''Gimp.get_images'') = Inr (PObj 3)
   \<and> server_resolve demo_host [] (PStr ''Gimp.get_images'')
       = Inl (AttributeError (quoted ''gi.repository.Gimp'' @ '' object'') ''Gimp'')
   \<and> server_response demo_host [] get_images_request
       = (Inr (server_error_response demo_host (AttributeError (quoted ''gi.repository.Gimp'' @ '' object'') ''Gimp'')), [])"
  by (simp add: plugin_defs server_defs demo_defs get_images_request_def)

section \<open>Handle reduction\<close>

text \<open>
  In \<^verbatim>\<open>gimp-mcp-plugin.py\<close> a result with an attribute \<^verbatim>\<open>id\<close> is reduced to the dictionary with
  the one key \<^verbatim>\<open>id\<close>, whatever else the object has.
\<close>

lemma plugin_handle_reduction:
  "py_getattr h s result ''id'' = Some i \<Longrightarrow>
     plugin_serialize_result h s result = Inr (PDict [(PStr ''id'', i)])"
  by (simp add: plugin_serialize_result_def)

text \<open>
  C6 on the small host: the display returned by \<^verbatim>\<open>Gimp.Display.new\<close> has \<^verbatim>\<open>id == 5\<close> and a
  name. \<^verbatim>\<open>gimp-mcp-plugin.py\<close> serializes it to \<^verbatim>\<open>{"id": 5}\<close>. \<^verbatim>\<open>gimp-mcp-server.py\<close> tests
  the attribute \<^verbatim>\<open>ID\<close>, which the object does not have, and answers with the text of the
  object; so does its whole request (its paths start below the namespace).
\<close>

theorem server_handle_reduction_misses_id:
  "py_getattr demo_host [] (PObj 20) ''id'' = Some (PInt 5)
   \<and> plugin_serialize_result demo_host [] (PObj 20) = Inr (PDict [(PStr ''id'', PInt 5)])
   \<and> server_serialize_result demo_host [] (PObj 20) = PStr ''<Display object>''
   \<and> server_response demo_host []
        (PDict [(PStr ''type'', PStr ''call_api''),
                (PStr ''params'', PDict [(PStr ''api_path'', PStr ''Display.new''),
                                         (PStr ''args'', PList [PInt 7])])])
       = (Inr (PDict [(PStr ''status'', PStr ''success''),
                      (PStr ''result'', PStr ''<Display object>'')]),
          [(5, [PInt 7], [])])"
  by (simp add: plugin_defs server_defs demo_defs)

section \<open>Error responses\<close>

text \<open>
  In \<^verbatim>\<open>gimp-mcp-plugin.py\<close> every exception raised in the body of the \<^verbatim>\<open>try\<close> becomes a
  response of status \<^verbatim>\<open>error\<close> that carries the message under \<^verbatim>\<open>error\<close> and the trace under
  \<^verbatim>\<open>traceback\<close>; \<^verbatim>\<open>execute_command\<close> itself never raises.
\<close>

lemma plugin_failure_is_error_response:
  assumes "plugin_try_body h s request = (Inl e, s')"
  shows "plugin_execute_command h s request =
           (PDict [(PStr ''status'', PStr ''error''),
                   (PStr ''error'', PStr (exn_str e)),
                   (PStr ''traceback'', PStr (format_exc h e))], s')"
  using assms by (simp add: plugin_execute_command_def plugin_error_response_def)

text \<open>Then \<^verbatim>\<open>_handle_client\<close> writes that response and closes, when it can be encoded and the peer listens.\<close>

lemma plugin_failure_is_replied:
  assumes "recv 4096 client = (Inr data, c1)" and "utf8_decode data = Inr text"
    and "json_loads cd text = Inr request"
    and "plugin_try_body h s request = (Inl e, s')"
    and "json_dumps cd (plugin_error_response h e) = Inr response_data"
    and "sendall c1 response_data = (None, c2)"
  shows "plugin_handle_client h cd s client = (None, s', close c2)"
  using assms by (simp add: plugin_handle_client_def plugin_execute_command_def)

text \<open>
  C4 on the small host, for a path whose last segment is undefined. The response of
  \<^verbatim>\<open>gimp-mcp-plugin.py\<close> has the field \<^verbatim>\<open>error\<close>. The response of \<^verbatim>\<open>gimp-mcp-server.py\<close> carries
  the message under \<^verbatim>\<open>message\<close> and has no field \<^verbatim>\<open>error\<close>: \<^verbatim>\<open>result["error"]\<close>, which the
  controller's \<^verbatim>\<open>call_api\<close> evaluates on a response that is not a success, raises KeyError.
\<close>

theorem server_error_response_has_no_error_field:
  "plugin_execute_command demo_host [] missing_request
     = (PDict [(PStr ''status'', PStr ''error''),
               (PStr ''error'', PStr (exn_str (AttributeError (''type object '' @ quoted ''Image'') ''missing_method''))),
               (PStr ''traceback'', PStr (format_exc demo_host (AttributeError (''type object '' @ quoted ''Image'') ''missing_method'')))],
        [])
   \<and> server_response demo_host []
        (PDict [(PStr ''type'', PStr ''call_api''),
                (PStr ''params'', PDict [(PStr ''api_path'', PStr ''Image.missing_method'')])])
     = (Inr (PDict [(PStr ''status'', PStr ''error''),
                    (PStr ''message'', PStr (exn_str (AttributeError (''type object '' @ quoted ''Image'') ''missing_method''))),
                    (PStr ''traceback'', PStr (format_exc demo_host (AttributeError (''type object '' @ quoted ''Image'') ''missing_method'')))]),
        [])
   \<and> py_getitem demo_host []
        (PDict [(PStr ''status'', PStr ''error''),
                (PStr ''message'', PStr (exn_str (AttributeError (''type object '' @ quoted ''Image'') ''missing_method''))),
                (PStr ''traceback'', PStr (format_exc demo_host (AttributeError (''type object '' @ quoted ''Image'') ''missing_method'')))])
        ''error''
     = Inl (KeyError ''error'')"
  by (simp add: plugin_defs server_defs demo_defs missing_request_def)

section \<open>One reply per connection\<close>

lemma recv_keeps:
  "recv n c = (x, c1) \<Longrightarrow> peer_open c1 = peer_open c \<and> closed c1 = closed c \<and> sent c1 = sent c"
  by (auto simp: recv_def split: list.splits sum.splits)

text \<open>
  C5, as the code has it, for \<^verbatim>\<open>_handle_client\<close> of \<^verbatim>\<open>gimp-mcp-plugin.py\<close>. When the one read
  of up to 4096 bytes decodes to a request, and the response can be encoded and the peer
  still listens, the handler writes exactly that one response and closes the socket,
  whether the response reports a success or an error. It returns without reading again:
  what else arrives on the connection stays in the inbox.
\<close>

theorem plugin_one_reply_then_close:
  assumes "recv 4096 client = (Inr data, c1)"
    and "utf8_decode data = Inr text"
    and "json_loads cd text = Inr request"
    and "plugin_execute_command h s request = (response, s')"
    and "json_dumps cd response = Inr response_data"
    and "peer_open client" and "\<not> closed client"
  shows "plugin_handle_client h cd s client =
           (None, s', c1\<lparr>sent := sent client @ [response_data], closed := True\<rparr>)"
proof -
  from recv_keeps [OF assms(1)] assms(6,7)
  have "sendall c1 response_data = (None, c1\<lparr>sent := sent client @ [response_data]\<rparr>)"
    by (simp add: sendall_def)
  with assms(1-5) show ?thesis
    by (simp add: plugin_handle_client_def close_def)
qed

text \<open>
  C5 on the small host, once for a request that succeeds and once for one that fails, each
  followed on the same connection by a second request that is never read.
\<close>

theorem plugin_one_reply_then_close_witness:
  \<open>plugin_handle_client demo_host demo_codec [] (fresh_conn [Inr get_images_text, Inr missing_text])
     = (None, [(3, [], [])],
        \<lparr>inbox = [Inr missing_text], peer_open = True,
         sent = [''{"status": "success", "result": [{"id": 7, "type": "Image"}]}''],
         closed = True\<rparr>)
   \<and> plugin_handle_client demo_host demo_codec [] (fresh_conn [Inr missing_text, Inr get_images_text])
     = (None, [],
        \<lparr>inbox = [Inr get_images_text], peer_open = True,
         sent = [''{"status": "error", "error": "type object 'Image' has no attribute 'missing_method'", "traceback": "Traceback (most recent call last): type object 'Image' has no attribute 'missing_method'"}''],
         closed = True\<rparr>)\<close>
proof -
  let ?ok = \<open>''{"status": "success", "result": [{"id": 7, "type": "Image"}]}''\<close>
  let ?failed = \<open>''{"status": "error", "error": "type object 'Image' has no attribute 'missing_method'", "traceback": "Traceback (most recent call last): type object 'Image' has no attribute 'missing_method'"}''\<close>
  have r1: "recv 4096 (fresh_conn [Inr get_images_text, Inr missing_text])
              = (Inr get_images_text, fresh_conn [Inr missing_text])"
    by (simp add: socket_defs get_images_text_def)
  have r2: "recv 4096 (fresh_conn [Inr missing_text, Inr get_images_text])
              = (Inr missing_text, fresh_conn [Inr get_images_text])"
    by (simp add: socket_defs missing_text_def)
  have u1: "utf8_decode get_images_text = Inr get_images_text"
    by (simp add: socket_defs get_images_text_def)
  have u2: "utf8_decode missing_text = Inr missing_text"
    by (simp add: socket_defs missing_text_def)
  have l1: "json_loads demo_codec get_images_text = Inr get_images_request"
    by (simp add: demo_codec_def)
  have l2: "json_loads demo_codec missing_text = Inr missing_request"
    by (simp add: demo_codec_def get_images_text_def missing_text_def)
  have e1: "plugin_execute_command demo_host [] get_images_request
              = (PDict [(PStr ''status'', PStr ''success''),
                        (PStr ''result'', PList [PDict [(PStr ''id'', PInt 7), (PStr ''type'', PStr ''Image'')]])],
                 [(3, [], [])])"
    by (simp add: plugin_defs demo_defs get_images_request_def)
  have e2: "plugin_execute_command demo_host [] missing_request
              = (PDict [(PStr ''status'', PStr ''error''),
                        (PStr ''error'', PStr (exn_str (AttributeError (''type object '' @ quoted ''Image'') ''missing_method''))),
                        (PStr ''traceback'',
                         PStr (format_exc demo_host (AttributeError (''type object '' @ quoted ''Image'') ''missing_method'')))],
                 [])"
    by (simp add: plugin_defs demo_defs missing_request_def)
  have seven: "int_str 7 = ''7''" by code_simp
  have d1: "json_dumps demo_codec
              (PDict [(PStr ''status'', PStr ''success''),
                      (PStr ''result'', PList [PDict [(PStr ''id'', PInt 7), (PStr ''type'', PStr ''Image'')]])])
            = Inr ?ok"
    by (simp add: demo_codec_def json_string_def json_escape_def seven)
  have d2: "json_dumps demo_codec
              (PDict [(PStr ''status'', PStr ''error''),
                      (PStr ''error'', PStr (exn_str (AttributeError (''type object '' @ quoted ''Image'') ''missing_method''))),
                      (PStr ''traceback'',
                       PStr (format_exc demo_host (AttributeError (''type object '' @ quoted ''Image'') ''missing_method'')))])
            = Inr ?failed"
    by (simp add: demo_codec_def json_string_def json_escape_def demo_host_def quoted_def)
  have o: "peer_open (fresh_conn xs)" "\<not> closed (fresh_conn xs)" for xs
    by (simp_all add: fresh_conn_def)
  from plugin_one_reply_then_close [OF r1 u1 l1 e1 d1 o]
       plugin_one_reply_then_close [OF r2 u2 l2 e2 d2 o]
  show ?thesis by (simp add: fresh_conn_def)
qed

text \<open>
  C5 as stated fails in both files. In \<^verbatim>\<open>gimp-mcp-plugin.py\<close> a request that arrives in two
  pieces is decoded after the first: \<^verbatim>\<open>json.loads\<close> raises, nothing is written and
  \<^verbatim>\<open>client.close()\<close> is not reached. In \<^verbatim>\<open>gimp-mcp-server.py\<close> the handler keeps reading after a
  dispatch: two requests on one connection are both answered (the host records two calls,
  the client is sent two responses) before the peer's close ends the loop.
\<close>

theorem one_reply_counterexample:
  \<open>plugin_handle_client demo_host demo_codec []
       (fresh_conn [Inr (take 20 get_images_text), Inr (drop 20 get_images_text)])
     = (Some (JSONDecodeError ''Expecting value''), [],
        \<lparr>inbox = [Inr (drop 20 get_images_text)], peer_open = True, sent = [], closed = False\<rparr>)
   \<and> server_session demo_host demo_codec []
       (fresh_conn [Inr bare_get_images_text, Inr bare_get_images_text])
     = ([(3, [], []), (3, [], [])],
        \<lparr>inbox = [], peer_open = True,
         sent = [''{"status": "success", "result": ["<Image object>"]}'',
                 ''{"status": "success", "result": ["<Image object>"]}''],
         closed = True\<rparr>)\<close>
  by (simp add: plugin_handle_client_def server_session_def server_client_loop.simps
        server_execute_command_def socket_defs codec_defs server_defs plugin_defs demo_defs)

section \<open>Whole-buffer framing in \<^verbatim>\<open>gimp-mcp-server.py\<close>\<close>

text \<open>
  One turn of the loop of \<^verbatim>\<open>handle_client\<close>, by what the decoding of the accumulated buffer
  gives. A \<^verbatim>\<open>json.JSONDecodeError\<close> keeps the buffer and reads on; a decoded command is queued
  for the main loop and the buffer starts again empty.
\<close>

lemma server_loop_needs_more_bytes:
  assumes "recv 1024 client = (Inr data, c1)" and "data \<noteq> []"
    and "utf8_decode (buffer @ data) = Inr text"
    and "json_loads cd text = Inl (JSONDecodeError m)"
  shows "server_client_loop cd buffer queue client = server_client_loop cd (buffer @ data) queue c1"
  using assms by (subst server_client_loop.simps) simp

lemma server_loop_dispatches:
  assumes "recv 1024 client = (Inr data, c1)" and "data \<noteq> []"
    and "utf8_decode (buffer @ data) = Inr text"
    and "json_loads cd text = Inr command"
  shows "server_client_loop cd buffer queue client = server_client_loop cd [] (queue @ [command]) c1"
  using assms by (subst server_client_loop.simps) simp

text \<open>
  The bytes are decoded as UTF-8 before they are parsed, and \<^verbatim>\<open>UnicodeDecodeError\<close> is not a
  \<^verbatim>\<open>json.JSONDecodeError\<close>: it reaches the outer \<^verbatim>\<open>except Exception\<close>, which leaves the loop.
\<close>

lemma server_loop_stops_on_undecodable_bytes:
  assumes "recv 1024 client = (Inr data, c1)" and "data \<noteq> []"
    and "utf8_decode (buffer @ data) = Inl e"
  shows "server_client_loop cd buffer queue client = (queue, c1)"
  using assms by (subst server_client_loop.simps) simp

text \<open>
  C7 on a request whose bytes arrive in two reads. Cut just before the two-byte character,
  the first part is valid UTF-8 and not yet JSON: the handler reads on and queues the
  command. Cut between the two bytes of the character, the first part is not valid UTF-8:
  the handler leaves the loop and closes the socket with nothing queued and the second
  part unread, although the whole text is a well-formed request.
\<close>

theorem server_loop_stops_on_split_character:
  "server_handle_client demo_codec
       (fresh_conn [Inr (butlast accent_head), Inr (CHR 0xC3 # accent_tail)])
     = ([accent_request], \<lparr>inbox = [], peer_open = True, sent = [], closed = True\<rparr>)
   \<and> server_handle_client demo_codec (fresh_conn [Inr accent_head, Inr accent_tail])
     = ([], \<lparr>inbox = [Inr accent_tail], peer_open = True, sent = [], closed = True\<rparr>)
   \<and> utf8_decode (accent_head @ accent_tail) = Inr (accent_head @ accent_tail)
   \<and> json_loads demo_codec (accent_head @ accent_tail) = Inr accent_request"
  by (simp add: server_handle_client_def server_client_loop.simps socket_defs codec_defs)

section \<open>The controller's connection after a call\<close>

lemma close_socket_forgets: "close_socket self = self\<lparr>sock := None\<rparr>"
  by (cases "sock self") (simp_all add: close_socket_def)

lemma connect_outcome:
  "sock self = None \<Longrightarrow> connect nw self = (Some e, self1) \<Longrightarrow> self1 = self"
  by (auto simp: connect_def close_socket_forgets split: sum.splits option.splits)

lemma connect_success:
  "sock self = None \<Longrightarrow> connect nw self = (None, self1) \<Longrightarrow> self1\<lparr>sock := None\<rparr> = self"
  by (auto simp: connect_def close_socket_forgets split: sum.splits option.splits)

text \<open>
  In \<^verbatim>\<open>src/gimp_mcp/server.py\<close>, whatever the network does and whatever \<^verbatim>\<open>send_command\<close>
  returns or raises (a value, a failed connect, a failed send, a timeout or an error while
  receiving, an empty or undecodable response), the connection object is afterwards the one
  it was with \<^verbatim>\<open>sock\<close> set to None: \<^verbatim>\<open>connect\<close> closes the socket in each of its \<^verbatim>\<open>except\<close>
  clauses and \<^verbatim>\<open>send_command\<close> in its \<^verbatim>\<open>finally\<close>.
\<close>

lemma send_command_forgets_socket:
  "snd (send_command cd nw self command_type params) = self\<lparr>sock := None\<rparr>"
proof (cases "sock self")
  case None
  obtain r self1 where c: "connect nw self = (r, self1)" by (cases "connect nw self")
  show ?thesis
  proof (cases r)
    case (Some e)
    with None c connect_outcome [of self nw e self1] show ?thesis
      by (simp add: send_command_def)
  next
    case no_error: None
    with None c connect_success [of self nw self1] show ?thesis
      by (auto simp: send_command_def close_socket_forgets Let_def
            split: option.splits prod.splits sum.splits)
  qed
next
  case (Some c)
  then show ?thesis
    by (auto simp: send_command_def close_socket_forgets Let_def split: prod.splits sum.splits)
qed

text \<open>
  The older \<^verbatim>\<open>server.py\<close> sets \<^verbatim>\<open>self.sock = None\<close> on both ways out of its \<^verbatim>\<open>try\<close>. So it does
  the same when a socket was cached or \<^verbatim>\<open>connect\<close> succeeded, and also when no socket could be
  created at all.
\<close>

lemma old_send_command_forgets_socket:
  assumes "sock self \<noteq> None \<or> isl (new_socket nw) \<or> connect_error nw = None"
  shows "snd (old_send_command cd nw self command_type params) = self\<lparr>sock := None\<rparr>"
  using assms
  by (auto simp: old_send_command_def old_connect_def Let_def
        split: option.splits prod.splits sum.splits if_splits)

text \<open>
  In the one case left it does not. Its \<^verbatim>\<open>connect\<close> assigns the new socket to \<^verbatim>\<open>self.sock\<close> and
  then connects it; when that raises (refused, timed out), the \<^verbatim>\<open>except\<close> clause raises
  ConnectionError and the socket, which is not connected, stays in \<^verbatim>\<open>self.sock\<close>.
\<close>

lemma old_connect_failure_keeps_socket:
  assumes "sock self = None" and "new_socket nw = Inr c" and "connect_error nw = Some e"
  shows "old_send_command cd nw self command_type params =
           (Inl (ConnectionError ''Could not connect to GIMP. Ensure the MCP Server plugin is running.''),
            self\<lparr>sock := Some (c\<lparr>peer_open := False\<rparr>)\<rparr>)"
  using assms by (simp add: old_send_command_def old_connect_def)

text \<open>
  C8 on the class \<^verbatim>\<open>GimpConnection\<close> at the head of the older \<^verbatim>\<open>server.py\<close> (lines 14 to 43):
  a call made while nothing listens on the port, and the next call on the same object.
  The first call raises ConnectionError and leaves the unconnected socket in \<^verbatim>\<open>self.sock\<close>.
  The second finds \<^verbatim>\<open>self.sock\<close> set and does not connect, whatever the network \<open>nw\<close> would
  now offer: it fails in \<^verbatim>\<open>sendall\<close> on the old socket, and only then is \<^verbatim>\<open>self.sock\<close> None.
  Through \<^verbatim>\<open>send_command\<close> of \<^verbatim>\<open>src/gimp_mcp/server.py\<close> the first call leaves \<^verbatim>\<open>sock\<close> None, and the
  second, once the plugin listens, opens a fresh connection and returns the response.

  The class is complete as it stands in the file. Further down, among the generated tool
  functions, that file has parameter lists Python rejects (a parameter without a default
  after one with a default, an ellipsis as a parameter name), so the module is loaded only
  once those are repaired.
\<close>

theorem old_send_command_keeps_refused_socket:
  \<open>old_send_command demo_codec
       \<lparr>new_socket = Inr (fresh_conn []), connect_error = Some (OSError ''[Errno 111] Connection refused'')\<rparr>
       localhost ''call_api'' (PDict [(PStr ''api_path'', PStr ''Gimp.get_images'')])
     = (Inl (ConnectionError ''Could not connect to GIMP. Ensure the MCP Server plugin is running.''),
        localhost\<lparr>sock := Some \<lparr>inbox = [], peer_open = False, sent = [], closed = False\<rparr>\<rparr>)
   \<and> old_send_command demo_codec nw
       (localhost\<lparr>sock := Some \<lparr>inbox = [], peer_open = False, sent = [], closed = False\<rparr>\<rparr>)
       ''call_api'' (PDict [(PStr ''api_path'', PStr ''Gimp.get_images'')])
     = (Inl (PlainException ''Error communicating with GIMP: send failed''), localhost)
   \<and> send_command demo_codec
       \<lparr>new_socket = Inr (fresh_conn []), connect_error = Some (OSError ''[Errno 111] Connection refused'')\<rparr>
       localhost ''call_api'' (PDict [(PStr ''api_path'', PStr ''Gimp.get_images'')])
     = (Inl (ConnectionError ''Could not connect to GIMP. Ensure the MCP Server plugin is running. Error: [Errno 111] Connection refused''),
        localhost)
   \<and> send_command demo_codec
       \<lparr>new_socket = Inr (fresh_conn [Inr no_images_text]), connect_error = None\<rparr>
       localhost ''call_api'' (PDict [(PStr ''api_path'', PStr ''Gimp.get_images'')])
     = (Inr no_images_response, localhost)\<close>
  by (simp add: old_send_command_def old_connect_def old_exchange_def send_command_def
        connect_def connect_failure_def exchange_def recv_response.simps
        communication_failure_def close_socket_def localhost_def socket_defs codec_defs)

end
